theory Spec2Isabelle
  imports Main "HOL-Library.Char_ord" "HOL-Library.List_Lexorder" "HOL-Library.Sublist"
begin

section \<open>NAVI call-chain tracer: a shallow embedding of \<open>trace-call-chain.ts\<close>\<close>

text \<open>
  The theory follows \<open>src/tools/trace-call-chain.ts\<close> (class \<open>TraceCallChainTool\<close>),
  \<open>src/utils/language-detection.ts\<close> (\<open>detectLanguage\<close>) and the file-system helper
  (\<open>FileSystemHelper.getAllFiles\<close>, \<open>findFiles\<close>).

  Modelling conventions.
  \<^item> JavaScript strings are \<open>string\<close> (a list of 8-bit characters). The regular
    expressions of the source are read over ASCII text: \<open>\w\<close> is \<open>[A-Za-z0-9_]\<close>,
    \<open>\s\<close> is blank, tab, line feed, vertical tab, form feed and carriage return, and the
    \<open>i\<close> flag folds the case of the 26 ASCII letters.
  \<^item> A \<open>CallChainNode\<close> is a mutable object; the model keeps the objects in an explicit
    store (a list indexed by address), and the \<open>callers\<close> and \<open>callees\<close> arrays hold
    addresses, so that two array slots holding the same object are visible as such.
  \<^item> \<open>Date.now()\<close> is a clock that is read: the n-th reading of a request is \<open>now n\<close>.
  \<^item> A thrown exception is a value \<open>Inl\<close> of a sum type; a \<open>try ... catch\<close> of the source
    is the branch that returns the value of its \<open>catch\<close>.
  \<^item> \<open>maxDepth\<close> is an integer, as the interface documents it. Object literals used as
    dictionaries are read at their own keys. \<open>console.warn\<close> is left out.
  \<^item> \<open>glob\<close> is the external collaborator that lists the files below the root; what it
    hides is a parameter of the model.
\<close>

subsection \<open>Strings\<close>

text \<open>\<open>content.split('\n')\<close>: always at least one piece.\<close>

fun splitLines :: "string \<Rightarrow> string list" where
  "splitLines [] = [[]]"
| "splitLines (c # cs) =
     (if c = CHR 0x0A then [] # splitLines cs
      else (case splitLines cs of
              [] \<Rightarrow> [[c]]
            | l # ls \<Rightarrow> (c # l) # ls))"

text \<open>\<open>pieces.join(sep)\<close>.\<close>

fun joinWith :: "string \<Rightarrow> string list \<Rightarrow> string" where
  "joinWith sep [] = []"
| "joinWith sep [l] = l"
| "joinWith sep (l # ls) = l @ sep @ joinWith sep ls"

definition isUpperAscii :: "char \<Rightarrow> bool" where
  "isUpperAscii c = (CHR ''A'' \<le> c \<and> c \<le> CHR ''Z'')"

definition isLowerAscii :: "char \<Rightarrow> bool" where
  "isLowerAscii c = (CHR ''a'' \<le> c \<and> c \<le> CHR ''z'')"

definition isDigit :: "char \<Rightarrow> bool" where
  "isDigit c = (CHR ''0'' \<le> c \<and> c \<le> CHR ''9'')"

definition lowerChar :: "char \<Rightarrow> char" where
  "lowerChar c = (if isUpperAscii c then char_of (of_char c + (32::nat)) else c)"

definition toLowerCase :: "string \<Rightarrow> string" where
  "toLowerCase s = map lowerChar s"

text \<open>\<open>\w\<close> and \<open>\s\<close> of a JavaScript regular expression, on ASCII.\<close>

definition isWordChar :: "char \<Rightarrow> bool" where
  "isWordChar c = (isUpperAscii c \<or> isLowerAscii c \<or> isDigit c \<or> c = CHR ''_'')"

definition isSpaceChar :: "char \<Rightarrow> bool" where
  "isSpaceChar c = (c = CHR '' '' \<or> (CHR 0x09 \<le> c \<and> c \<le> CHR 0x0D))"

text \<open>Line terminators of a regular expression: \<open>.\<close> does not match them, and \<open>^\<close>
  under the \<open>m\<close> flag matches after one.\<close>

definition isLineTerminator :: "char \<Rightarrow> bool" where
  "isLineTerminator c = (c = CHR 0x0A \<or> c = CHR 0x0D)"

text \<open>\<open>s.trim()\<close>.\<close>

definition trim :: "string \<Rightarrow> string" where
  "trim s = rev (dropWhile isSpaceChar (rev (dropWhile isSpaceChar s)))"

text \<open>\<open>s.startsWith(p)\<close>, \<open>s.endsWith(p)\<close> and \<open>s.includes(p)\<close>.\<close>

fun startsWith :: "string \<Rightarrow> string \<Rightarrow> bool" where
  "startsWith s [] = True"
| "startsWith [] (p # ps) = False"
| "startsWith (c # cs) (p # ps) = (c = p \<and> startsWith cs ps)"

definition endsWith :: "string \<Rightarrow> string \<Rightarrow> bool" where
  "endsWith s p = startsWith (rev s) (rev p)"

fun includesStr :: "string \<Rightarrow> string \<Rightarrow> bool" where
  "includesStr [] p = (p = [])"
| "includesStr (c # cs) p = (startsWith (c # cs) p \<or> includesStr cs p)"

subsection \<open>Function-body isolation: \<open>findFunctionEnd\<close>\<close>

text \<open>
  The inner loop \<open>for (const char of line)\<close> with the two locals \<open>braceCount\<close> and
  \<open>inFunction\<close>. \<open>None\<close> is the \<open>return i\<close> taken inside the loop; \<open>Some\<close> carries the
  locals to the next line.
\<close>

fun scanChars :: "string \<Rightarrow> int \<Rightarrow> bool \<Rightarrow> (int \<times> bool) option" where
  "scanChars [] braceCount inFunction = Some (braceCount, inFunction)"
| "scanChars (c # cs) braceCount inFunction =
     (if c = CHR ''{'' then scanChars cs (braceCount + 1) True
      else if c = CHR ''}'' then
        (if inFunction \<and> braceCount - 1 = 0 then None
         else scanChars cs (braceCount - 1) inFunction)
      else scanChars cs braceCount inFunction)"

text \<open>The outer loop \<open>for (let i = startLine; i < lines.length; i++)\<close>; the first
  argument is \<open>lines\<close> from index \<open>i\<close> on. An empty line is skipped by
  \<open>if (!line) continue\<close>, which is what \<open>scanChars\<close> does on it.\<close>

fun scanLines :: "string list \<Rightarrow> nat \<Rightarrow> int \<Rightarrow> bool \<Rightarrow> nat option" where
  "scanLines [] i braceCount inFunction = None"
| "scanLines (l # ls) i braceCount inFunction =
     (case scanChars l braceCount inFunction of
        None \<Rightarrow> Some i
      | Some (bc, inF) \<Rightarrow> scanLines ls (Suc i) bc inF)"

definition findFunctionEnd :: "string list \<Rightarrow> nat \<Rightarrow> int" where
  "findFunctionEnd lines startLine =
     (case scanLines (drop startLine lines) startLine 0 False of
        Some i \<Rightarrow> int i
      | None \<Rightarrow> min (int startLine + 50) (int (length lines) - 1))"

text \<open>The brace balance of a text, as the specification words it: the number of \<open>{\<close>
  minus the number of \<open>}\<close>.\<close>

definition balance :: "string \<Rightarrow> int" where
  "balance cs = int (count_list cs (CHR ''{'')) - int (count_list cs (CHR ''}''))"

text \<open>After reading \<open>cs\<close> the balance has been positive and is zero again.\<close>

definition closedText :: "string \<Rightarrow> bool" where
  "closedText cs = (balance cs = 0 \<and> list_ex (\<lambda>k. 0 < balance (take k cs)) [0..<length cs])"

text \<open>No prefix of the text \<open>T\<close> is closed: the balance never returns to zero after
  having been positive.\<close>

definition neverCloses :: "string \<Rightarrow> bool" where
  "neverCloses T = list_all (\<lambda>n. \<not> closedText (take n T)) [0..<Suc (length T)]"

text \<open>The prefix of length \<open>n\<close> is the first closed prefix of \<open>T\<close>.\<close>

definition firstClose :: "string \<Rightarrow> nat \<Rightarrow> bool" where
  "firstClose T n = (n \<le> length T \<and> closedText (take n T)
     \<and> list_all (\<lambda>m. \<not> closedText (take m T)) [0..<n])"

text \<open>The index of the line that holds the character at position \<open>p\<close> of the
  concatenated lines.\<close>

fun lineOf :: "string list \<Rightarrow> nat \<Rightarrow> nat" where
  "lineOf [] p = 0"
| "lineOf (l # ls) p = (if p < length l then 0 else Suc (lineOf ls (p - length l)))"

definition braceDelta :: "char \<Rightarrow> int" where
  "braceDelta c = (if c = CHR ''{'' then 1 else if c = CHR ''}'' then - 1 else 0)"

definition noClosed :: "string \<Rightarrow> bool" where
  "noClosed P = (\<forall>m \<le> length P. \<not> closedText (take m P))"

subsection \<open>The regular expressions of the source\<close>

text \<open>
  The source builds its patterns with \<open>new RegExp\<close>. The fragment it uses is small:
  literal characters, the classes \<open>\w\<close>, \<open>\s\<close>, \<open>[^)]\<close>, \<open>[:=]\<close> and \<open>.\<close>, greedy
  \<open>*\<close>, \<open>+\<close> and \<open>?\<close>, alternation, the assertions \<open>\b\<close> and \<open>^\<close>, and one
  capturing group. \<open>rx\<close> is that fragment; a pattern is a sequence \<open>rx list\<close>.
\<close>

datatype cls = WordC | SpaceC | NotRParen | ColonEq | AnyC

fun inCls :: "cls \<Rightarrow> char \<Rightarrow> bool" where
  "inCls WordC c = isWordChar c"
| "inCls SpaceC c = isSpaceChar c"
| "inCls NotRParen c = (c \<noteq> CHR '')'')"
| "inCls ColonEq c = (c = CHR '':'' \<or> c = CHR ''='')"
| "inCls AnyC c = (\<not> isLineTerminator c)"

datatype rx =
    Lit char
  | Cls cls
  | Star cls
  | WordB
  | Bol
  | Alts "rx list list"
  | Opt "rx list"
  | Group "rx list"
  | EndGroup

text \<open>\<open>X+\<close> is \<open>XX*\<close>; a literal word is the sequence of its characters.\<close>

definition oneOrMore :: "cls \<Rightarrow> rx list" where
  "oneOrMore c = [Cls c, Star c]"

definition lits :: "string \<Rightarrow> rx list" where
  "lits s = map Lit s"

text \<open>Comparison of a literal with a character of the input: under the \<open>i\<close> flag the
  two are compared after case folding.\<close>

definition litEq :: "bool \<Rightarrow> char \<Rightarrow> char \<Rightarrow> bool" where
  "litEq ic a x = (if ic then lowerChar a = lowerChar x else a = x)"

definition isWordOpt :: "char option \<Rightarrow> bool" where
  "isWordOpt p = (case p of None \<Rightarrow> False | Some c \<Rightarrow> isWordChar c)"

definition isWordHd :: "string \<Rightarrow> bool" where
  "isWordHd s = (case s of [] \<Rightarrow> False | c # _ \<Rightarrow> isWordChar c)"

definition atLineStart :: "char option \<Rightarrow> bool" where
  "atLineStart p = (case p of None \<Rightarrow> True | Some c \<Rightarrow> isLineTerminator c)"

definition pushCur :: "char \<Rightarrow> string option \<Rightarrow> string option" where
  "pushCur x cur = (case cur of None \<Rightarrow> None | Some cs \<Rightarrow> Some (x # cs))"

text \<open>
  The backtracking matcher of ECMAScript on this fragment, anchored at the current
  position. Arguments: the \<open>i\<close> flag; the pattern still to be matched; the character
  before the current position (for \<open>\b\<close> and \<open>^\<close>); the rest of the input; the text of
  group 1 if it is closed; the reversed text of group 1 while it is open. The result is the
  text of group 1, the last character consumed and the input after the match. Greedy
  operators try the longer match first and fall back.
\<close>

function rxm :: "bool \<Rightarrow> rx list \<Rightarrow> char option \<Rightarrow> string \<Rightarrow> string option \<Rightarrow> string option
    \<Rightarrow> (string option \<times> char option \<times> string) option" where
  "rxm ic [] p s cap cur = Some (cap, p, s)"
| "rxm ic (Lit a # k) p [] cap cur = None"
| "rxm ic (Lit a # k) p (x # xs) cap cur =
     (if litEq ic a x then rxm ic k (Some x) xs cap (pushCur x cur) else None)"
| "rxm ic (Cls c # k) p [] cap cur = None"
| "rxm ic (Cls c # k) p (x # xs) cap cur =
     (if inCls c x then rxm ic k (Some x) xs cap (pushCur x cur) else None)"
| "rxm ic (Star c # k) p [] cap cur = rxm ic k p [] cap cur"
| "rxm ic (Star c # k) p (x # xs) cap cur =
     (if inCls c x then
        (case rxm ic (Star c # k) (Some x) xs cap (pushCur x cur) of
           Some r \<Rightarrow> Some r
         | None \<Rightarrow> rxm ic k p (x # xs) cap cur)
      else rxm ic k p (x # xs) cap cur)"
| "rxm ic (WordB # k) p s cap cur =
     (if isWordOpt p \<noteq> isWordHd s then rxm ic k p s cap cur else None)"
| "rxm ic (Bol # k) p s cap cur =
     (if atLineStart p then rxm ic k p s cap cur else None)"
| "rxm ic (Alts [] # k) p s cap cur = None"
| "rxm ic (Alts (a # as) # k) p s cap cur =
     (case rxm ic (a @ k) p s cap cur of
        Some r \<Rightarrow> Some r
      | None \<Rightarrow> rxm ic (Alts as # k) p s cap cur)"
| "rxm ic (Opt a # k) p s cap cur =
     (case rxm ic (a @ k) p s cap cur of
        Some r \<Rightarrow> Some r
      | None \<Rightarrow> rxm ic k p s cap cur)"
| "rxm ic (Group a # k) p s cap cur = rxm ic (a @ EndGroup # k) p s cap (Some [])"
| "rxm ic (EndGroup # k) p s cap cur = rxm ic k p s (map_option rev cur) None"
  by pat_completeness auto
termination
  by (relation "measures [\<lambda>(ic, k, p, s, cap, cur). size_list size k,
                          \<lambda>(ic, k, p, s, cap, cur). length s]") auto

text \<open>The result of \<open>line.match(re)\<close>, or of one step of \<open>matchAll\<close>: the matched text
  \<open>match[0]\<close>, group 1 \<open>match[1]\<close>, and where the match ended.\<close>

record rmatch =
  match0 :: string
  match1 :: "string option"
  endPrev :: "char option"
  endRest :: string

text \<open>The search for the leftmost match: every start position from left to right.\<close>

fun rxSearch :: "bool \<Rightarrow> rx list \<Rightarrow> char option \<Rightarrow> string \<Rightarrow> rmatch option" where
  "rxSearch ic r p [] =
     (case rxm ic r p [] None None of
        None \<Rightarrow> None
      | Some (g, p', s') \<Rightarrow> Some \<lparr>match0 = [], match1 = g, endPrev = p', endRest = s'\<rparr>)"
| "rxSearch ic r p (x # xs) =
     (case rxm ic r p (x # xs) None None of
        None \<Rightarrow> rxSearch ic r (Some x) xs
      | Some (g, p', s') \<Rightarrow>
          Some \<lparr>match0 = take (length (x # xs) - length s') (x # xs), match1 = g,
                endPrev = p', endRest = s'\<rparr>)"

text \<open>\<open>line.match(re)\<close> for a pattern without the \<open>g\<close> flag.\<close>

definition rxMatch :: "bool \<Rightarrow> rx list \<Rightarrow> string \<Rightarrow> rmatch option" where
  "rxMatch ic r s = rxSearch ic r None s"

text \<open>\<open>s.matchAll(re)\<close> for a pattern with the \<open>g\<close> flag: the matches from left to
  right, each search starting where the last match ended (one character further after an
  empty match).\<close>

function matchAllFrom :: "bool \<Rightarrow> rx list \<Rightarrow> char option \<Rightarrow> string \<Rightarrow> rmatch list" where
  "matchAllFrom ic r p s =
     (case rxSearch ic r p s of
        None \<Rightarrow> []
      | Some m \<Rightarrow>
          if length (endRest m) < length s then m # matchAllFrom ic r (endPrev m) (endRest m)
          else (case s of [] \<Rightarrow> [m] | x # xs \<Rightarrow> m # matchAllFrom ic r (Some x) xs))"
  by pat_completeness auto
termination
  by (relation "measure (\<lambda>(ic, r, p, s). length s)") auto

definition matchAll :: "bool \<Rightarrow> rx list \<Rightarrow> string \<Rightarrow> rmatch list" where
  "matchAll ic r s = matchAllFrom ic r None s"

subsection \<open>Paths and language detection (\<open>language-detection.ts\<close>)\<close>

text \<open>\<open>basename\<close> and \<open>extname\<close> of Node's \<open>path\<close> module, on POSIX paths without a
  trailing slash. \<open>extname\<close> is empty when the base name has no dot, when its only dot is
  its first character, and for \<open>..\<close>.\<close>

definition basename :: "string \<Rightarrow> string" where
  "basename p = rev (takeWhile (\<lambda>c. c \<noteq> CHR ''/'') (rev p))"

definition extname :: "string \<Rightarrow> string" where
  "extname p =
     (let b = basename p; e = rev (takeWhile (\<lambda>c. c \<noteq> CHR ''.'') (rev b))
      in if CHR ''.'' \<notin> set b then []
         else if Suc (length e) = length b then []
         else if b = ''..'' then []
         else CHR ''.'' # e)"

text \<open>\<open>relative(rootPath, filePath)\<close> for a file below the root.\<close>

definition relative :: "string \<Rightarrow> string \<Rightarrow> string" where
  "relative rootPath filePath =
     (if startsWith filePath (rootPath @ ''/'') then drop (Suc (length rootPath)) filePath
      else if filePath = rootPath then []
      else filePath)"

text \<open>\<open>SUPPORTED_LANGUAGES\<close>: key, \<open>name\<close> and \<open>extensions\<close> of each entry, in the order
  of the object literal.\<close>

definition SUPPORTED_LANGUAGES :: "(string \<times> string \<times> string list) list" where
  "SUPPORTED_LANGUAGES =
   [(''javascript'', ''JavaScript'', [''js'', ''jsx'', ''mjs'', ''cjs'']),
    (''typescript'', ''TypeScript'', [''ts'', ''tsx'', ''mts'', ''cts'']),
    (''python'', ''Python'', [''py'', ''pyw'', ''pyi'']),
    (''go'', ''Go'', [''go'']),
    (''java'', ''Java'', [''java'']),
    (''rust'', ''Rust'', [''rs'']),
    (''cpp'', ''C++'', [''cpp'', ''cxx'', ''cc'', ''c++'', ''hpp'', ''hxx'', ''h++'']),
    (''c'', ''C'', [''c'', ''h'']),
    (''csharp'', ''C#'', [''cs'']),
    (''php'', ''PHP'', [''php'', ''phtml'', ''php3'', ''php4'', ''php5'']),
    (''ruby'', ''Ruby'', [''rb'', ''rbw'']),
    (''swift'', ''Swift'', [''swift'']),
    (''kotlin'', ''Kotlin'', [''kt'', ''kts'']),
    (''scala'', ''Scala'', [''scala'', ''sc'']),
    (''json'', ''JSON'', [''json'', ''jsonc'', ''json5'']),
    (''yaml'', ''YAML'', [''yaml'', ''yml'']),
    (''xml'', ''XML'', [''xml'', ''xsd'', ''xsl'', ''xslt'', ''svg'']),
    (''html'', ''HTML'', [''html'', ''htm'', ''xhtml'']),
    (''css'', ''CSS'', [''css'', ''scss'', ''sass'', ''less'']),
    (''shell'', ''Shell'', [''sh'', ''bash'', ''zsh'', ''fish'']),
    (''powershell'', ''PowerShell'', [''ps1'', ''psm1'', ''psd1'']),
    (''markdown'', ''Markdown'', [''md'', ''markdown'', ''mdown'', ''mkd'']),
    (''sql'', ''SQL'', [''sql'', ''mysql'', ''pgsql'', ''sqlite'']),
    (''dockerfile'', ''Dockerfile'', [''dockerfile'']),
    (''makefile'', ''Makefile'', [''makefile'', ''mk'']),
    (''dart'', ''Dart'', [''dart'']),
    (''lua'', ''Lua'', [''lua'']),
    (''perl'', ''Perl'', [''pl'', ''pm'', ''perl'']),
    (''r'', ''R'', [''r'', ''R''])]"

definition SPECIAL_FILES :: "(string \<times> string) list" where
  "SPECIAL_FILES =
   [(''dockerfile'', ''dockerfile''), (''makefile'', ''makefile''), (''rakefile'', ''ruby''),
    (''gemfile'', ''ruby''), (''podfile'', ''ruby''), (''vagrantfile'', ''ruby''),
    (''gruntfile'', ''javascript''), (''gulpfile'', ''javascript''),
    (''webpack.config'', ''javascript''), (''rollup.config'', ''javascript''),
    (''vite.config'', ''javascript''), (''jest.config'', ''javascript''),
    (''babel.config'', ''javascript''), (''eslint.config'', ''javascript''),
    (''prettier.config'', ''javascript''), (''tailwind.config'', ''javascript''),
    (''next.config'', ''javascript''), (''nuxt.config'', ''javascript''),
    (''vue.config'', ''javascript''), (''svelte.config'', ''javascript''),
    (''astro.config'', ''javascript''), (''tsconfig'', ''json''), (''jsconfig'', ''json''),
    (''package'', ''json''), (''package-lock'', ''json''), (''yarn.lock'', ''yaml''),
    (''composer'', ''json''), (''cargo'', ''yaml''), (''pyproject'', ''yaml''),
    (''requirements'', ''text''), (''pipfile'', ''yaml''), (''poetry.lock'', ''yaml''),
    (''go.mod'', ''text''), (''go.sum'', ''text''), (''pom'', ''xml''),
    (''build.gradle'', ''text''), (''settings.gradle'', ''text''), (''cmakelists'', ''text''),
    (''readme'', ''markdown''), (''changelog'', ''markdown''), (''license'', ''text''),
    (''authors'', ''text''), (''contributors'', ''text''), (''copying'', ''text''),
    (''install'', ''text''), (''news'', ''text''), (''todo'', ''text''), (''version'', ''text''),
    (''gitignore'', ''text''), (''gitattributes'', ''text''), (''editorconfig'', ''text''),
    (''dockerignore'', ''text''), (''npmignore'', ''text'')]"

text \<open>\<open>SUPPORTED_LANGUAGES[key]\<close>, reduced to the \<open>name\<close> of the entry.\<close>

definition languageNameOf :: "string \<Rightarrow> string option" where
  "languageNameOf key = map_option fst (map_of SUPPORTED_LANGUAGES key)"

text \<open>The first loop of \<open>detectLanguage\<close>: the first entry whose extensions include the
  extension.\<close>

fun byExtension :: "(string \<times> string \<times> string list) list \<Rightarrow> string \<Rightarrow> string option" where
  "byExtension [] extension = None"
| "byExtension ((key, name, exts) # rest) extension =
     (if extension \<in> set exts then Some name else byExtension rest extension)"

text \<open>The second loop: special file names.\<close>

fun bySpecialFile :: "(string \<times> string) list \<Rightarrow> string \<Rightarrow> string option" where
  "bySpecialFile [] fileName = None"
| "bySpecialFile ((pattern, langKey) # rest) fileName =
     (if fileName = pattern \<or> startsWith fileName (pattern @ ''.'') then
        (if langKey = ''text'' then Some ''Text''
         else if langKey = ''markdown'' then languageNameOf ''markdown''
         else (case languageNameOf langKey of
                 Some name \<Rightarrow> Some name
               | None \<Rightarrow> bySpecialFile rest fileName))
      else bySpecialFile rest fileName)"

text \<open>\<open>detectLanguage(filePath)\<close>; the model keeps the \<open>name\<close> of the \<open>LanguageInfo\<close>,
  the only field the tracer reads. \<open>None\<close> is \<open>null\<close>.\<close>

definition detectLanguage :: "string \<Rightarrow> string option" where
  "detectLanguage filePath =
     (let extension = toLowerCase (drop 1 (extname filePath));
          fileName = toLowerCase (basename filePath)
      in case (if extension \<noteq> [] then byExtension SUPPORTED_LANGUAGES extension else None) of
           Some name \<Rightarrow> Some name
         | None \<Rightarrow>
            (case bySpecialFile SPECIAL_FILES fileName of
               Some name \<Rightarrow> Some name
             | None \<Rightarrow>
                 if extension = [] \<and> (includesStr fileName ''script'' \<or> includesStr fileName ''run'')
                 then languageNameOf ''shell'' else None))"

subsection \<open>The file system\<close>

text \<open>
  What the tool reads from outside. \<open>files\<close> are the entries on disk, by absolute path;
  the content is \<open>None\<close> for an entry that \<open>fs.readFile\<close> cannot read (a directory).
  \<open>ignored\<close> is what \<open>glob\<close> leaves out of every listing: hidden entries (\<open>dot: false\<close>)
  and the configured exclude patterns. \<open>rawRegExp\<close> is how \<open>new RegExp\<close> reads a function
  name that holds special characters and is not escaped (\<open>None\<close>: a syntax error).
  \<open>now n\<close> is the n-th reading of \<open>Date.now()\<close> in a request, \<open>isoNow\<close> the time stamp
  of the report, and \<open>stackLimit\<close> the recursion depth the JavaScript engine allows.
\<close>

record world =
  files :: "(string \<times> string option) list"
  ignored :: "string \<Rightarrow> bool"
  rawRegExp :: "string \<Rightarrow> rx list option"
  now :: "nat \<Rightarrow> int"
  isoNow :: string
  stackLimit :: nat

text \<open>\<open>fs.readFile(filePath, 'utf-8')\<close>; \<open>None\<close> is the exception.\<close>

definition readFile :: "world \<Rightarrow> string \<Rightarrow> string option" where
  "readFile w filePath = (case map_of (files w) filePath of Some (Some content) \<Rightarrow> Some content | _ \<Rightarrow> None)"

text \<open>\<open>fileSystemHelper.exists(path)\<close>: the root itself or something below it is on disk.\<close>

definition pathExists :: "world \<Rightarrow> string \<Rightarrow> bool" where
  "pathExists w p = list_ex (\<lambda>(q, c). q = p \<or> startsWith q (p @ ''/'')) (files w)"

text \<open>One \<open>glob\<close> call of \<open>findFiles\<close> (\<open>cwd: rootPath\<close>, \<open>absolute: true\<close>). The patterns
  are \<open>**/*\<close> (\<open>None\<close>) and \<open>**/*.ext\<close> (\<open>Some ext\<close>).\<close>

definition globFiles :: "world \<Rightarrow> string \<Rightarrow> string option \<Rightarrow> string list" where
  "globFiles w rootPath ext =
     filter (\<lambda>p. startsWith p (rootPath @ ''/'') \<and> \<not> ignored w p
                 \<and> (case ext of None \<Rightarrow> True | Some e \<Rightarrow> endsWith p (CHR ''.'' # e)))
            (map fst (files w))"

text \<open>\<open>findFiles\<close>: the matches of all patterns, without duplicates, sorted.\<close>

definition findFiles :: "world \<Rightarrow> string \<Rightarrow> string option list \<Rightarrow> string list" where
  "findFiles w rootPath patterns = sort (remdups (concat (map (globFiles w rootPath) patterns)))"

text \<open>\<open>getAllFiles(rootPath, {extensions})\<close>: an extension list that is present, even
  empty, replaces the pattern \<open>**/*\<close>.\<close>

definition getAllFiles :: "world \<Rightarrow> string \<Rightarrow> string list option \<Rightarrow> string list" where
  "getAllFiles w rootPath extensions =
     findFiles w rootPath (case extensions of Some exts \<Rightarrow> map Some exts | None \<Rightarrow> [None])"

text \<open>\<open>getExtensionsForLanguages\<close>; \<open>extensionMap\<close> is read at its own keys.\<close>

definition extensionMap :: "(string \<times> string list) list" where
  "extensionMap =
   [(''javascript'', [''js'', ''jsx'', ''mjs'']),
    (''typescript'', [''ts'', ''tsx'']),
    (''python'', [''py'', ''pyx'']),
    (''java'', [''java'']),
    (''go'', [''go'']),
    (''rust'', [''rs'']),
    (''cpp'', [''cpp'', ''cc'', ''cxx'', ''c++'', ''c'']),
    (''csharp'', [''cs''])]"

definition getExtensionsForLanguages :: "string list \<Rightarrow> string list" where
  "getExtensionsForLanguages languages =
     concat (map (\<lambda>lang. case map_of extensionMap (toLowerCase lang) of
                            Some langExtensions \<Rightarrow> langExtensions
                          | None \<Rightarrow> []) languages)"

text \<open>The language filter at the head of the file loops of \<open>findFunction\<close> and
  \<open>findCallers\<close>: \<open>True\<close> is \<open>continue\<close>.\<close>

definition skippedByLanguage :: "string list option \<Rightarrow> string option \<Rightarrow> bool" where
  "skippedByLanguage languages language =
     (case languages of
        None \<Rightarrow> False
      | Some ls \<Rightarrow> ls \<noteq> [] \<and> (case language of None \<Rightarrow> True
                                  | Some name \<Rightarrow> toLowerCase name \<notin> set ls))"

text \<open>\<open>language?.name || 'Unknown'\<close>.\<close>

definition languageOrUnknown :: "string option \<Rightarrow> string" where
  "languageOrUnknown language = (case language of Some name \<Rightarrow> name | None \<Rightarrow> ''Unknown'')"

subsection \<open>Declaration patterns, signatures and the enclosing function\<close>

text \<open>The name inside a declaration pattern: the escaped (hence literal) name, or the group
  \<open>(\w+)\<close> when no name is given; an empty name is falsy and counts as none.\<close>

definition namePart :: "string option \<Rightarrow> rx list" where
  "namePart functionName =
     (case functionName of
        None \<Rightarrow> [Group (oneOrMore WordC)]
      | Some n \<Rightarrow> if n = [] then [Group (oneOrMore WordC)] else lits n)"

text \<open>\<open>getFunctionDeclarationPatterns\<close>. Every pattern carries the \<open>i\<close> flag.\<close>

definition getFunctionDeclarationPatterns :: "string \<Rightarrow> string option \<Rightarrow> rx list list" where
  "getFunctionDeclarationPatterns language functionName =
     (let name = namePart functionName; l = toLowerCase language
      in if l = ''typescript'' \<or> l = ''javascript'' then
           [[WordB, Alts [lits ''function'', lits ''async'' @ oneOrMore SpaceC @ lits ''function'']]
              @ oneOrMore SpaceC @ name @ [Star SpaceC, Lit CHR ''(''],
            [WordB] @ name @ [Star SpaceC, Cls ColonEq, Star SpaceC,
              Opt (lits ''async'' @ oneOrMore SpaceC), Lit CHR ''('', Star NotRParen, Lit CHR '')'',
              Star SpaceC, Lit CHR ''='', Lit CHR ''>''],
            [WordB] @ name @ [Star SpaceC, Lit CHR ''('', Star NotRParen, Lit CHR '')'',
              Star SpaceC, Lit CHR ''{'']]
         else if l = ''python'' then
           [[Bol, Star SpaceC, Opt (lits ''async'' @ oneOrMore SpaceC)] @ lits ''def'' @ oneOrMore SpaceC
              @ name @ [Star SpaceC, Lit CHR ''('']]
         else if l = ''java'' then
           [[WordB, Alts [lits ''public'', lits ''private'', lits ''protected'', lits ''static'',
                          lits ''final'', lits ''abstract'']]
              @ oneOrMore SpaceC @ [Star AnyC] @ oneOrMore SpaceC @ name @ [Star SpaceC, Lit CHR ''('']]
         else if l = ''go'' then
           [[Bol, Star SpaceC] @ lits ''func'' @ oneOrMore SpaceC
              @ [Opt ([Lit CHR ''('', Star NotRParen, Lit CHR '')''] @ oneOrMore SpaceC)]
              @ name @ [Star SpaceC, Lit CHR ''('']]
         else
           [[WordB] @ name @ [Star SpaceC, Lit CHR ''('']])"

text \<open>\<open>for (const pattern of patterns) { const match = line.match(pattern); if (match) ...\<close>:
  the match of the first pattern that matches.\<close>

fun firstMatch :: "rx list list \<Rightarrow> string \<Rightarrow> rmatch option" where
  "firstMatch [] l = None"
| "firstMatch (pattern # patterns) l =
     (case rxMatch True pattern l of
        Some m \<Rightarrow> Some m
      | None \<Rightarrow> firstMatch patterns l)"

text \<open>The line loop of \<open>searchFunctionInFile\<close> and \<open>findFunctionDefinition\<close>: the index
  of the first non-empty line that some pattern matches. The first argument is \<open>lines\<close>
  from index \<open>i\<close> on.\<close>

definition lineDeclares :: "rx list list \<Rightarrow> string \<Rightarrow> bool" where
  "lineDeclares patterns l = (l \<noteq> [] \<and> firstMatch patterns l \<noteq> None)"

fun firstDeclaration :: "rx list list \<Rightarrow> string list \<Rightarrow> nat \<Rightarrow> nat option" where
  "firstDeclaration patterns [] i = None"
| "firstDeclaration patterns (l # ls) i =
     (if lineDeclares patterns l then Some i
      else firstDeclaration patterns ls (Suc i))"

text \<open>\<open>extractFunctionSignature\<close>: the loop over at most three lines from \<open>lineIndex\<close>,
  with the locals \<open>parenCount\<close> and \<open>signature\<close>. The first argument is \<open>allLines\<close> from
  index \<open>i\<close> on, the second the number of further lines the loop may visit.\<close>

definition parenDelta :: "string \<Rightarrow> int" where
  "parenDelta l = int (count_list l (CHR ''('')) - int (count_list l (CHR '')''))"

fun signatureLoop :: "string list \<Rightarrow> nat \<Rightarrow> bool \<Rightarrow> int \<Rightarrow> string \<Rightarrow> string" where
  "signatureLoop [] n first parenCount signature = signature"
| "signatureLoop (l # ls) 0 first parenCount signature = signature"
| "signatureLoop (l # ls) (Suc n) first parenCount signature =
     (if l = [] then signatureLoop ls n False parenCount signature
      else
        (let pc = parenCount + parenDelta l;
             sig = (if first then signature else signature @ '' '' @ trim l)
         in if pc = 0 \<and> (includesStr l ''{'' \<or> includesStr l ''=>'') then sig
            else signatureLoop ls n False pc sig))"

definition extractFunctionSignature :: "string \<Rightarrow> string list \<Rightarrow> nat \<Rightarrow> string" where
  "extractFunctionSignature currentLine allLines lineIndex =
     signatureLoop (drop lineIndex allLines) 3 True 0 (trim currentLine)"

text \<open>The result of \<open>findContainingFunction\<close>.\<close>

record containing =
  cname :: string
  cline :: nat
  csignature :: string

text \<open>One step of the backward loop of \<open>findContainingFunction\<close>, at line \<open>i\<close>. The name
  is \<open>match[1] || match[2] || match[0]\<close>; no pattern has a second group.\<close>

definition containingAt :: "string list \<Rightarrow> nat \<Rightarrow> string \<Rightarrow> containing option" where
  "containingAt lines i language =
     (if i < length lines \<and> lines ! i \<noteq> [] then
        (case firstMatch (getFunctionDeclarationPatterns language None) (lines ! i) of
           None \<Rightarrow> None
         | Some m \<Rightarrow>
             Some \<lparr>cname = (case match1 m of
                               Some g \<Rightarrow> if g \<noteq> [] then g else match0 m
                             | None \<Rightarrow> match0 m),
                   cline = i + 1,
                   csignature = extractFunctionSignature (lines ! i) lines i\<rparr>)
      else None)"

fun findContainingFunction :: "string list \<Rightarrow> nat \<Rightarrow> string \<Rightarrow> containing option" where
  "findContainingFunction lines 0 language = containingAt lines 0 language"
| "findContainingFunction lines (Suc i) language =
     (case containingAt lines (Suc i) language of
        Some c \<Rightarrow> Some c
      | None \<Rightarrow> findContainingFunction lines i language)"

text \<open>\<open>findFunctionDefinition\<close>: start and end line of the first declaration.\<close>

definition findFunctionDefinition :: "string list \<Rightarrow> string \<Rightarrow> string \<Rightarrow> (nat \<times> int) option" where
  "findFunctionDefinition lines functionName language =
     (case firstDeclaration (getFunctionDeclarationPatterns language (Some functionName)) lines 0 of
        None \<Rightarrow> None
      | Some i \<Rightarrow> Some (i, findFunctionEnd lines i))"

text \<open>\<open>extractFunctionBody\<close>: \<open>lines.slice(startLine, endLine + 1).join('\n')\<close>.\<close>

definition extractFunctionBody :: "string list \<Rightarrow> nat \<Rightarrow> int \<Rightarrow> string" where
  "extractFunctionBody lines startLine endLine =
     joinWith [CHR 0x0A] (take (nat (endLine + 1) - startLine) (drop startLine lines))"

subsection \<open>Nodes, the object store and the request\<close>

text \<open>\<open>CallChainNode\<close>. The arrays \<open>callers\<close> and \<open>callees\<close> hold references to node
  objects: addresses of the store.\<close>

record CallChainNode =
  functionName :: string
  path :: string
  line :: nat
  signature :: string
  language :: string
  callers :: "nat list"
  callees :: "nat list"
  depth :: nat

datatype direction = Callers | Callees | Both

text \<open>\<open>TraceCallChainInput\<close>, after \<open>TraceCallChainSchema.parse\<close> has filled in the
  defaults. \<open>maxDepth\<close> is \<open>z.number()\<close> without a lower bound.\<close>

record TraceCallChainInput =
  functionName :: string
  path :: string
  direction :: direction
  maxDepth :: int
  languages :: "string list option"
  includeExternal :: bool

text \<open>
  The mutable state of one request: the store of node objects (a node's address is its
  index), the \<open>functionCache\<close> of the tool (a \<open>Map\<close> from cache key to node object), the
  \<open>visited\<close> set and the number of clock readings so far.
\<close>

record state =
  heap :: "CallChainNode list"
  functionCache :: "(string \<times> nat) list"
  visited :: "string list"
  clock :: nat

definition initialState :: state where
  "initialState = \<lparr>heap = [], functionCache = [], visited = [], clock = 0\<rparr>"

text \<open>\<open>new\<close>: the object gets the next free address.\<close>

definition alloc :: "CallChainNode \<Rightarrow> state \<Rightarrow> nat \<times> state" where
  "alloc nd st = (length (heap st), st\<lparr>heap := heap st @ [nd]\<rparr>)"

text \<open>\<open>Date.now()\<close>.\<close>

definition readClock :: "world \<Rightarrow> state \<Rightarrow> int \<times> state" where
  "readClock w st = (now w (clock st), st\<lparr>clock := Suc (clock st)\<rparr>)"

text \<open>Decimal digits of a number inside a template string.\<close>

function showNat :: "nat \<Rightarrow> string" where
  "showNat n = (if n < 10 then [char_of (48 + n)] else showNat (n div 10) @ [char_of (48 + n mod 10)])"
  by pat_completeness auto
termination
  by (relation "measure id") auto

text \<open>\<open>`${node.path}:${node.functionName}:${currentDepth}`\<close>.\<close>

definition nodeKeyOf :: "CallChainNode \<Rightarrow> nat \<Rightarrow> string" where
  "nodeKeyOf nd currentDepth =
     CallChainNode.path nd @ '':'' @ CallChainNode.functionName nd @ '':'' @ showNat currentDepth"

subsection \<open>The function resolver\<close>

text \<open>\<open>searchFunctionInFile\<close>: a fresh node for the first declaration in the file, or
  \<open>null\<close>; an unreadable file is \<open>null\<close> as well (the \<open>catch\<close>).\<close>

definition searchFunctionInFile :: "world \<Rightarrow> string \<Rightarrow> string \<Rightarrow> string \<Rightarrow> string \<Rightarrow> CallChainNode option" where
  "searchFunctionInFile w filePath fname lang rootPath =
     (case readFile w filePath of
        None \<Rightarrow> None
      | Some content \<Rightarrow>
          (let lines = splitLines content
           in case firstDeclaration (getFunctionDeclarationPatterns lang (Some fname)) lines 0 of
                None \<Rightarrow> None
              | Some i \<Rightarrow>
                  Some \<lparr>CallChainNode.functionName = fname,
                        path = relative rootPath filePath,
                        line = i + 1,
                        signature = extractFunctionSignature (lines ! i) lines i,
                        language = lang,
                        callers = [], callees = [], depth = 0\<rparr>))"

text \<open>The file loop of \<open>findFunction\<close>.\<close>

fun searchFiles :: "world \<Rightarrow> string \<Rightarrow> string \<Rightarrow> string list option \<Rightarrow> string list \<Rightarrow> CallChainNode option" where
  "searchFiles w fname searchPath langs [] = None"
| "searchFiles w fname searchPath langs (filePath # rest) =
     (let lang = detectLanguage filePath
      in if skippedByLanguage langs lang then searchFiles w fname searchPath langs rest
         else (case searchFunctionInFile w filePath fname (languageOrUnknown lang) searchPath of
                 Some nd \<Rightarrow> Some nd
               | None \<Rightarrow> searchFiles w fname searchPath langs rest))"

text \<open>\<open>findFunction\<close>: the cached node object if the key \<open>functionName:searchPath\<close> is
  cached, else the search, whose hit is stored in the cache. The result is the address of
  the node object, \<open>None\<close> for \<open>null\<close>.\<close>

definition findFunction :: "world \<Rightarrow> string \<Rightarrow> string \<Rightarrow> string list option \<Rightarrow> state \<Rightarrow> nat option \<times> state" where
  "findFunction w fname searchPath langs st =
     (let cacheKey = fname @ '':'' @ searchPath
      in case map_of (functionCache st) cacheKey of
           Some a \<Rightarrow> (Some a, st)
         | None \<Rightarrow>
             (let allFiles = getAllFiles w searchPath (map_option getExtensionsForLanguages langs)
              in case searchFiles w fname searchPath langs allFiles of
                   None \<Rightarrow> (None, st)
                 | Some nd \<Rightarrow>
                     (let (a, st') = alloc nd st
                      in (Some a, st'\<lparr>functionCache := (cacheKey, a) # functionCache st'\<rparr>))))"

subsection \<open>Callers and callees of one function in one file\<close>

text \<open>The characters that \<open>new RegExp\<close> reads as syntax; a name without them is read
  literally.\<close>

definition regexSpecial :: "char \<Rightarrow> bool" where
  "regexSpecial c =
     (c \<in> set [CHR ''.'', CHR ''*'', CHR ''+'', CHR ''?'', CHR ''^'', CHR ''$'', CHR ''{'', CHR ''}'',
                CHR ''('', CHR '')'', CHR ''|'', CHR ''['', CHR '']'', CHR 0x5C])"

text \<open>\<open>new RegExp(`\\b${functionName}\\s*\\(`, 'g')\<close>: the name is not escaped.\<close>

definition callPatternOf :: "world \<Rightarrow> string \<Rightarrow> rx list option" where
  "callPatternOf w fname =
     (if list_ex regexSpecial fname then rawRegExp w fname
      else Some ([WordB] @ lits fname @ [Star SpaceC, Lit CHR ''('']))"

text \<open>The body of the loop over the matches of one line in \<open>findCallersInFile\<close>: the
  enclosing function of line \<open>i\<close> is pushed unless it is missing, bears the name of the
  target, or is in \<open>callers\<close> already.\<close>

definition pushCaller :: "string list \<Rightarrow> nat \<Rightarrow> string \<Rightarrow> string \<Rightarrow> string \<Rightarrow> CallChainNode list \<Rightarrow> CallChainNode list" where
  "pushCaller lines i fname lang relPath callers0 =
     (case findContainingFunction lines i lang of
        None \<Rightarrow> callers0
      | Some c \<Rightarrow>
          if cname c \<noteq> fname then
            (if list_ex (\<lambda>x. CallChainNode.functionName x = cname c \<and> CallChainNode.path x = relPath) callers0
             then callers0
             else callers0 @ [\<lparr>CallChainNode.functionName = cname c, path = relPath, line = cline c,
                                signature = csignature c, language = lang,
                                callers = [], callees = [], depth = 0\<rparr>])
          else callers0)"

text \<open>The line loop of \<open>findCallersInFile\<close>; the first argument is the list of line
  indexes still to visit.\<close>

fun callersLoop :: "nat list \<Rightarrow> string list \<Rightarrow> rx list \<Rightarrow> string \<Rightarrow> string \<Rightarrow> string \<Rightarrow> CallChainNode list \<Rightarrow> CallChainNode list" where
  "callersLoop [] lines callPattern fname lang relPath callers0 = callers0"
| "callersLoop (i # is) lines callPattern fname lang relPath callers0 =
     (if lines ! i = [] then callersLoop is lines callPattern fname lang relPath callers0
      else callersLoop is lines callPattern fname lang relPath
             (fold (\<lambda>m acc. pushCaller lines i fname lang relPath acc)
                   (matchAll False callPattern (lines ! i)) callers0))"

text \<open>\<open>findCallersInFile\<close>: fresh nodes for the functions of the file that call
  \<open>functionName\<close>; the empty list for an unreadable file or a pattern that does not
  compile (the \<open>catch\<close>).\<close>

definition findCallersInFile :: "world \<Rightarrow> string \<Rightarrow> string \<Rightarrow> string \<Rightarrow> string \<Rightarrow> CallChainNode list" where
  "findCallersInFile w filePath fname lang rootPath =
     (case readFile w filePath of
        None \<Rightarrow> []
      | Some content \<Rightarrow>
          (let lines = splitLines content
           in case callPatternOf w fname of
                None \<Rightarrow> []
              | Some callPattern \<Rightarrow>
                  callersLoop [0..<length lines] lines callPattern fname lang
                    (relative rootPath filePath) []))"

text \<open>The pattern \<open>/\b(\w+)\s*\(/g\<close> of \<open>findCalleesInFile\<close>.\<close>

definition calleePattern :: "rx list" where
  "calleePattern = [WordB, Group (oneOrMore WordC), Star SpaceC, Lit CHR ''('']"

text \<open>The names that the loop of \<open>findCalleesInFile\<close> resolves: the group-1 texts of the
  matches in the body, in order, without the function's own name and without repetition
  (the set \<open>foundCallees\<close>).\<close>

fun calleeNames :: "string option list \<Rightarrow> string \<Rightarrow> string list \<Rightarrow> string list" where
  "calleeNames [] fname foundCallees = []"
| "calleeNames (g # gs) fname foundCallees =
     (case g of
        None \<Rightarrow> calleeNames gs fname foundCallees
      | Some calledFunction \<Rightarrow>
          if calledFunction \<noteq> [] \<and> calledFunction \<noteq> fname \<and> calledFunction \<notin> set foundCallees
          then calledFunction # calleeNames gs fname (foundCallees @ [calledFunction])
          else calleeNames gs fname foundCallees)"

definition extractCalleeNames :: "string \<Rightarrow> string \<Rightarrow> string list" where
  "extractCalleeNames functionBody fname =
     calleeNames (map match1 (matchAll False calleePattern functionBody)) fname []"

text \<open>The placeholder for a callee that \<open>findFunction\<close> does not resolve.\<close>

definition placeholder :: "string \<Rightarrow> CallChainNode" where
  "placeholder calledFunction =
     \<lparr>CallChainNode.functionName = calledFunction, path = ''external'', line = 0,
      signature = calledFunction @ ''()'', language = ''unknown'',
      callers = [], callees = [], depth = 0\<rparr>"

text \<open>One callee: the node object that \<open>findFunction(calledFunction, rootPath, [language])\<close>
  returns, or a fresh placeholder.\<close>

definition resolveCallee :: "world \<Rightarrow> string \<Rightarrow> string \<Rightarrow> string \<Rightarrow> nat list \<times> state \<Rightarrow> nat list \<times> state" where
  "resolveCallee w rootPath lang calledFunction acc =
     (case acc of (calleesSoFar, st) \<Rightarrow>
        (case findFunction w calledFunction rootPath (Some [lang]) st of
           (Some a, st') \<Rightarrow> (calleesSoFar @ [a], st')
         | (None, st') \<Rightarrow>
             (let (a, st'') = alloc (placeholder calledFunction) st'
              in (calleesSoFar @ [a], st''))))"

text \<open>\<open>findCalleesInFile\<close>: the node objects of the callees, in the order of their first
  call in the body.\<close>

definition findCalleesInFile :: "world \<Rightarrow> string \<Rightarrow> string \<Rightarrow> string \<Rightarrow> string \<Rightarrow> state \<Rightarrow> nat list \<times> state" where
  "findCalleesInFile w filePath fname lang rootPath st =
     (case readFile w filePath of
        None \<Rightarrow> ([], st)
      | Some content \<Rightarrow>
          (let lines = splitLines content
           in case findFunctionDefinition lines fname lang of
                None \<Rightarrow> ([], st)
              | Some (startLine, endLine) \<Rightarrow>
                  fold (resolveCallee w rootPath lang)
                       (extractCalleeNames (extractFunctionBody lines startLine endLine) fname)
                       ([], st)))"

definition resolveFullPath :: "string \<Rightarrow> string \<Rightarrow> string" where
  "resolveFullPath relativePath rootPath =
     (if startsWith relativePath ''/'' then relativePath else rootPath @ ''/'' @ relativePath)"

subsection \<open>The recursive expansion\<close>

text \<open>\<open>caller.depth = currentDepth + 1; node.callers.push(caller)\<close> for a fresh caller
  object, which enters the store here; the result is its address.\<close>

definition attachCaller :: "nat \<Rightarrow> nat \<Rightarrow> CallChainNode \<Rightarrow> state \<Rightarrow> nat \<times> state" where
  "attachCaller a currentDepth caller st =
     (let (c, st1) = alloc (caller\<lparr>depth := currentDepth + 1\<rparr>) st
      in (c, st1\<lparr>heap := (heap st1)[a := (heap st1 ! a)\<lparr>callers := callers (heap st1 ! a) @ [c]\<rparr>]\<rparr>))"

text \<open>\<open>callee.depth = currentDepth + 1; node.callees.push(callee)\<close> for the node object
  at address \<open>c\<close>: first the write to \<open>c\<close>, then the push at \<open>a\<close>.\<close>

definition attachCallee :: "nat \<Rightarrow> nat \<Rightarrow> nat \<Rightarrow> state \<Rightarrow> state" where
  "attachCallee a currentDepth c st =
     (let h1 = (heap st)[c := (heap st ! c)\<lparr>depth := currentDepth + 1\<rparr>]
      in st\<lparr>heap := h1[a := (h1 ! a)\<lparr>callees := callees (h1 ! a) @ [c]\<rparr>]\<rparr>)"

definition addVisited :: "string \<Rightarrow> state \<Rightarrow> state" where
  "addVisited nodeKey st = st\<lparr>visited := visited st @ [nodeKey]\<rparr>"

definition deleteVisited :: "string \<Rightarrow> state \<Rightarrow> state" where
  "deleteVisited nodeKey st = st\<lparr>visited := removeAll nodeKey (visited st)\<rparr>"

text \<open>
  \<open>findCallers(node, input, currentDepth, visited, startTime, timeout)\<close>; \<open>a\<close> is the
  address of \<open>node\<close>. The fields \<open>functionName\<close> and \<open>path\<close> of a node are never written
  after its creation, so they are read once.
\<close>

function findCallers :: "world \<Rightarrow> TraceCallChainInput \<Rightarrow> nat \<Rightarrow> nat \<Rightarrow> int \<Rightarrow> int \<Rightarrow> state \<Rightarrow> state" where
  "findCallers w inp a currentDepth startTime timeout st =
     (case readClock w st of (t, st1) \<Rightarrow>
        if t - startTime > timeout then st1
        else if int currentDepth \<ge> maxDepth inp then st1
        else
          (let nd = heap st1 ! a; nodeKey = nodeKeyOf nd currentDepth
           in if nodeKey \<in> set (visited st1) then st1
              else
                deleteVisited nodeKey
                  (fold (\<lambda>filePath s.
                           (let lang = detectLanguage filePath
                            in if skippedByLanguage (languages inp) lang then s
                               else fold (\<lambda>caller s'.
                                            (case attachCaller a currentDepth caller s' of (c, s'') \<Rightarrow>
                                               if int currentDepth + 1 < maxDepth inp
                                               then findCallers w inp c (currentDepth + 1) startTime timeout s''
                                               else s''))
                                         (findCallersInFile w filePath (CallChainNode.functionName nd)
                                            (languageOrUnknown lang) (TraceCallChainInput.path inp))
                                         s))
                        (getAllFiles w (TraceCallChainInput.path inp)
                           (map_option getExtensionsForLanguages (languages inp)))
                        (addVisited nodeKey st1))))"
  by pat_completeness auto
termination
  by (relation "measure (\<lambda>(w, inp, a, currentDepth, startTime, timeout, st).
                  nat (maxDepth inp - int currentDepth))") auto

text \<open>\<open>findCallees(node, input, currentDepth, visited, startTime, timeout)\<close>.\<close>

function findCallees :: "world \<Rightarrow> TraceCallChainInput \<Rightarrow> nat \<Rightarrow> nat \<Rightarrow> int \<Rightarrow> int \<Rightarrow> state \<Rightarrow> state" where
  "findCallees w inp a currentDepth startTime timeout st =
     (case readClock w st of (t, st1) \<Rightarrow>
        if t - startTime > timeout then st1
        else if int currentDepth \<ge> maxDepth inp then st1
        else
          (let nd = heap st1 ! a; nodeKey = nodeKeyOf nd currentDepth
           in if nodeKey \<in> set (visited st1) then st1
              else
                (case findCalleesInFile w
                        (resolveFullPath (CallChainNode.path nd) (TraceCallChainInput.path inp))
                        (CallChainNode.functionName nd) (language nd) (TraceCallChainInput.path inp)
                        (addVisited nodeKey st1) of
                   (calleeList, st2) \<Rightarrow>
                     deleteVisited nodeKey
                       (fold (\<lambda>c s.
                                (let s' = attachCallee a currentDepth c s
                                 in if int currentDepth + 1 < maxDepth inp
                                    then findCallees w inp c (currentDepth + 1) startTime timeout s'
                                    else s'))
                             calleeList st2))))"
  by pat_completeness auto
termination
  by (relation "measure (\<lambda>(w, inp, a, currentDepth, startTime, timeout, st).
                  nat (maxDepth inp - int currentDepth))") auto

declare findCallers.simps [simp del] findCallees.simps [simp del]

text \<open>\<open>traceCallChain\<close>: the address of the root node, or \<open>None\<close> for \<open>null\<close>, and the
  state in which the request ends. The time-out is the constant 30000.\<close>

definition traceCallChain :: "world \<Rightarrow> TraceCallChainInput \<Rightarrow> state \<Rightarrow> nat option \<times> state" where
  "traceCallChain w inp st0 =
     (case findFunction w (TraceCallChainInput.functionName inp) (TraceCallChainInput.path inp)
             (languages inp) st0 of
        (None, st) \<Rightarrow> (None, st)
      | (Some rootFunction, st) \<Rightarrow>
          (case readClock w (st\<lparr>visited := []\<rparr>) of (startTime, st1) \<Rightarrow>
             (let timeout = 30000;
                  st2 = (if direction inp = Callers \<or> direction inp = Both
                         then findCallers w inp rootFunction 0 startTime timeout st1 else st1);
                  st3 = (if direction inp = Callees \<or> direction inp = Both
                         then findCallees w inp rootFunction 0 startTime timeout st2 else st2)
              in (Some rootFunction, st3))))"

subsection \<open>Report and \<open>execute\<close>\<close>

text \<open>
  \<open>countNodes\<close> and \<open>renderCallTree\<close> recurse along \<open>callers\<close> and \<open>callees\<close>. The
  recursion depth of the engine is bounded; \<open>None\<close> is the \<open>RangeError\<close> of a recursion
  deeper than the bound, which is what happens on a cyclic object graph.
\<close>

fun countNodesAt :: "nat \<Rightarrow> CallChainNode list \<Rightarrow> nat \<Rightarrow> nat option" where
  "countNodesAt 0 h a = None"
| "countNodesAt (Suc fuel) h a =
     (case those (map (countNodesAt fuel h) (callers (h ! a) @ callees (h ! a))) of
        None \<Rightarrow> None
      | Some counts \<Rightarrow> Some (1 + sum_list counts))"

text \<open>\<open>countNodes(node)\<close>, with \<open>if (!node) return 0\<close>.\<close>

definition countNodes :: "nat \<Rightarrow> CallChainNode list \<Rightarrow> nat option \<Rightarrow> nat option" where
  "countNodes fuel h callChain =
     (case callChain of None \<Rightarrow> Some 0 | Some a \<Rightarrow> countNodesAt fuel h a)"

text \<open>The markdown text of the report is kept as its structure: one \<open>rendered\<close> entry
  for each entry that \<open>renderCallTree\<close> prints.\<close>

datatype rendered = Rendered string string nat string "rendered list" "rendered list"

fun renderNode :: "nat \<Rightarrow> CallChainNode list \<Rightarrow> nat \<Rightarrow> rendered option" where
  "renderNode 0 h a = None"
| "renderNode (Suc fuel) h a =
     (case those (map (renderNode fuel h) (callers (h ! a))) of
        None \<Rightarrow> None
      | Some rcallers \<Rightarrow>
          (case those (map (renderNode fuel h) (callees (h ! a))) of
             None \<Rightarrow> None
           | Some rcallees \<Rightarrow>
               Some (Rendered (CallChainNode.functionName (h ! a)) (CallChainNode.path (h ! a))
                       (line (h ! a)) (signature (h ! a)) rcallers rcallees)))"

definition renderCallTree :: "nat \<Rightarrow> CallChainNode list \<Rightarrow> nat list \<Rightarrow> rendered list option" where
  "renderCallTree fuel h nodes = those (map (renderNode fuel h) nodes)"

datatype report =
    FunctionNotFound string
  | RootFunction string nat string string "rendered list option" "rendered list option"

text \<open>\<open>generateReport\<close>: the section \<open>Function Not Found\<close> for \<open>null\<close>; else the root
  with the callers section and the callees section that the direction asks for.\<close>

definition generateReport :: "nat \<Rightarrow> CallChainNode list \<Rightarrow> nat option \<Rightarrow> TraceCallChainInput \<Rightarrow> report option" where
  "generateReport fuel h callChain inp =
     (case callChain of
        None \<Rightarrow> Some (FunctionNotFound (TraceCallChainInput.functionName inp))
      | Some a \<Rightarrow>
          (let wantCallers = (direction inp = Callers \<or> direction inp = Both);
               wantCallees = (direction inp = Callees \<or> direction inp = Both);
               rcallers = (if wantCallers then renderCallTree fuel h (callers (h ! a)) else Some []);
               rcallees = (if wantCallees then renderCallTree fuel h (callees (h ! a)) else Some [])
           in case (rcallers, rcallees) of
                (Some rs, Some es) \<Rightarrow>
                  Some (RootFunction (CallChainNode.path (h ! a)) (line (h ! a)) (language (h ! a))
                          (signature (h ! a))
                          (if wantCallers then Some rs else None)
                          (if wantCallees then Some es else None))
              | _ \<Rightarrow> None))"

record metadata =
  mFunctionName :: string
  searchPath :: string
  mDirection :: direction
  mMaxDepth :: int
  totalNodes :: nat
  timestamp :: string

datatype error = InvalidArguments | PathDoesNotExist string | MaximumCallStack

text \<open>\<open>execute(args)\<close>. \<open>args\<close> is \<open>None\<close> when \<open>TraceCallChainSchema.parse\<close> rejects the
  arguments. Every exception leaves \<open>execute\<close> as an \<open>Error\<close> whose message starts with
  \<open>Call chain tracing failed\<close>: the value \<open>Inl\<close>. After \<open>functionCache.clear()\<close> the
  request starts from the empty cache, whatever earlier requests left in the tool.\<close>

definition execute :: "world \<Rightarrow> TraceCallChainInput option \<Rightarrow> error + (report \<times> metadata)" where
  "execute w args =
     (case args of
        None \<Rightarrow> Inl InvalidArguments
      | Some inp \<Rightarrow>
          if \<not> pathExists w (TraceCallChainInput.path inp)
          then Inl (PathDoesNotExist (TraceCallChainInput.path inp))
          else
            (case traceCallChain w inp initialState of
               (callChain, st) \<Rightarrow>
                 (case generateReport (stackLimit w) (heap st) callChain inp of
                    None \<Rightarrow> Inl MaximumCallStack
                  | Some rep \<Rightarrow>
                      (case countNodes (stackLimit w) (heap st) callChain of
                         None \<Rightarrow> Inl MaximumCallStack
                       | Some n \<Rightarrow>
                           Inr (rep, \<lparr>mFunctionName = TraceCallChainInput.functionName inp,
                                      searchPath = TraceCallChainInput.path inp,
                                      mDirection = direction inp,
                                      mMaxDepth = maxDepth inp,
                                      totalNodes = n,
                                      timestamp = isoNow w\<rparr>)))))"

subsection \<open>The resolver as the specification words it\<close>





text \<open>Every node of the store has a depth of at most \<open>M\<close>.\<close>

definition depthBounded :: "int \<Rightarrow> state \<Rightarrow> bool" where
  "depthBounded M st = (\<forall>n \<in> set (heap st). int (depth n) \<le> M)"

text \<open>The names that \<open>detectLanguage\<close> can return (\<open>Text\<close> or the \<open>name\<close> of an entry of
  \<open>SUPPORTED_LANGUAGES\<close>), and the values that the field \<open>language\<close> of a node can take:
  such a name, \<open>Unknown\<close>, or the \<open>unknown\<close> of a placeholder.\<close>

definition languageNames :: "string list" where
  "languageNames = ''Text'' # map (\<lambda>(key, name, exts). name) SUPPORTED_LANGUAGES"

definition nodeLanguages :: "string list" where
  "nodeLanguages = ''unknown'' # ''Unknown'' # languageNames"



subsection \<open>Example corpora and requests\<close>

text \<open>A world with the given files, nothing ignored, a clock that stands still, and no
  function name with special characters.\<close>

definition plainWorld :: "(string \<times> string option) list \<Rightarrow> world" where
  "plainWorld fs =
     \<lparr>files = fs, ignored = (\<lambda>p. False), rawRegExp = (\<lambda>n. None), now = (\<lambda>n. 0),
      isoNow = ''2025-01-01T00:00:00.000Z'', stackLimit = 10000\<rparr>"

text \<open>The scenario of the specification: one file \<open>a\<close> below the root \<open>/r\<close> that defines
  \<open>function b(){ c(); }\<close> and \<open>function c(){ b(); }\<close>; and the same file named \<open>a.js\<close>.\<close>

definition sourceBC :: string where
  "sourceBC = ''function b(){ c(); }'' @ [CHR 0x0A] @ ''function c(){ b(); }''"

definition corpusA :: world where
  "corpusA = plainWorld [(''/r/a'', Some sourceBC)]"

definition corpusAjs :: world where
  "corpusAjs = plainWorld [(''/r/a.js'', Some sourceBC)]"

text \<open>\<open>trace("b", direction=callees, maxDepth=3)\<close> below \<open>/r\<close>.\<close>

definition traceB :: TraceCallChainInput where
  "traceB = \<lparr>functionName = ''b'', path = ''/r'', direction = Callees, maxDepth = 3,
             languages = None, includeExternal = False\<rparr>"

text \<open>A corpus in which the root holds a file named \<open>external\<close>: \<open>a.js\<close> defines \<open>b\<close>,
  which calls \<open>c\<close>; \<open>external\<close> defines \<open>c\<close>, which calls \<open>b\<close>.\<close>

definition corpusExternal :: world where
  "corpusExternal =
     plainWorld [(''/r/a.js'', Some ''function b(){ c(); }''),
                 (''/r/external'', Some ''function c(){ b(); }'')]"

text \<open>A function whose body holds an \<open>if\<close> and calls \<open>g\<close> twice.\<close>

definition corpusIf :: world where
  "corpusIf =
     plainWorld [(''/r/k.js'',
       Some (''function f() {'' @ [CHR 0x0A] @ ''  if (ok(1)) { g(); g(); }'' @ [CHR 0x0A] @ ''}''))]"

definition traceF :: TraceCallChainInput where
  "traceF = \<lparr>functionName = ''f'', path = ''/r'', direction = Callees, maxDepth = 1,
             languages = None, includeExternal = False\<rparr>"




text \<open>A self-recursive function \<open>f\<close> and a function \<open>g\<close> that calls it.\<close>

definition linesSelf :: "string list" where
  "linesSelf = [''function f(n) {'', ''  return f(n - 1);'', ''}'', ''function g() { f(3); }'']"

definition corpusSelf :: world where
  "corpusSelf = plainWorld [(''/r/s.js'', Some (joinWith [CHR 0x0A] linesSelf))]"
section \<open>Theorems\<close>

subsection \<open>Function-body isolation\<close>

lemma closedText_iff:
  "closedText cs \<longleftrightarrow> balance cs = 0 \<and> (\<exists>k < length cs. 0 < balance (take k cs))"
  by (auto simp: closedText_def list_ex_iff)

lemma neverCloses_iff: "neverCloses T \<longleftrightarrow> (\<forall>n \<le> length T. \<not> closedText (take n T))"
  by (auto simp: neverCloses_def list_all_iff less_Suc_eq_le)

lemma firstClose_iff:
  "firstClose T n \<longleftrightarrow>
     n \<le> length T \<and> closedText (take n T) \<and> (\<forall>m < n. \<not> closedText (take m T))"
  by (auto simp: firstClose_def list_all_iff)

lemma balance_Nil: "balance [] = 0" by (simp add: balance_def)

lemma balance_snoc: "balance (P @ [c]) = balance P + braceDelta c"
  by (simp add: balance_def braceDelta_def)

lemma balance_take_Suc: "k < length P \<Longrightarrow> balance (take (Suc k) P) = balance (take k P) + braceDelta (P ! k)"
  by (simp add: take_Suc_conv_app_nth balance_snoc)

lemma braceDelta_bounds: "- 1 \<le> braceDelta c \<and> braceDelta c \<le> 1"
  by (simp add: braceDelta_def)

lemma balance_pos_has_open: "0 < balance P \<Longrightarrow> CHR ''{'' \<in> set P"
proof (rule ccontr)
  assume a: "0 < balance P" and b: "CHR ''{'' \<notin> set P"
  from b have "count_list P (CHR ''{'') = 0" by (simp add: count_list_0_iff)
  with a show False by (simp add: balance_def)
qed

lemma balance_ivt:
  "0 < balance (take k P) \<Longrightarrow> k \<le> n \<Longrightarrow> n \<le> length P \<Longrightarrow> balance (take n P) \<le> 0
   \<Longrightarrow> \<exists>m. k < m \<and> m \<le> n \<and> balance (take m P) = 0"
proof (induction n)
  case 0
  then show ?case by simp
next
  case (Suc n)
  show ?case
  proof (cases "k = Suc n")
    case True
    with Suc.prems show ?thesis by simp
  next
    case False
    with Suc.prems have kn: "k \<le> n" and nl: "n < length P" by simp_all
    show ?thesis
    proof (cases "balance (take n P) \<le> 0")
      case True
      with Suc.IH Suc.prems kn nl obtain m where "k < m" "m \<le> n" "balance (take m P) = 0" by auto
      then show ?thesis by (intro exI[of _ m]) simp
    next
      case False
      have "balance (take (Suc n) P) = balance (take n P) + braceDelta (P ! n)"
        using nl by (rule balance_take_Suc)
      with False Suc.prems(4) braceDelta_bounds[of "P ! n"] have "balance (take (Suc n) P) = 0" by linarith
      moreover have "k < Suc n" using kn by simp
      ultimately show ?thesis by (intro exI[of _ "Suc n"]) simp
    qed
  qed
qed

lemma closedText_snoc:
  assumes "noClosed P"
  shows "closedText (P @ [c]) \<longleftrightarrow> (c = CHR ''}'' \<and> CHR ''{'' \<in> set P \<and> balance P - 1 = 0)"
proof
  assume cl: "closedText (P @ [c])"
  then obtain k where k: "k \<le> length P" "0 < balance (take k P)" and b0: "balance P + braceDelta c = 0"
    by (auto simp: closedText_iff balance_snoc less_Suc_eq_le)
  have nP: "\<not> closedText P" using assms by (auto simp: noClosed_def dest: spec[of _ "length P"])
  have pos: "0 < balance P"
  proof (rule ccontr)
    assume "\<not> 0 < balance P"
    then have "balance (take (length P) P) \<le> 0" by simp
    from balance_ivt[OF k(2) k(1) le_refl this] obtain m where m: "k < m" "m \<le> length P" "balance (take m P) = 0" by blast
    have "closedText (take m P)" unfolding closedText_iff
      using m k by (auto intro!: exI[of _ k] simp: min_def)
    with assms m show False by (auto simp: noClosed_def)
  qed
  with b0 braceDelta_bounds[of c] have "braceDelta c = - 1" "balance P = 1" by linarith+
  then have "c = CHR ''}''" by (auto simp: braceDelta_def split: if_splits)
  with pos \<open>balance P = 1\<close> show "c = CHR ''}'' \<and> CHR ''{'' \<in> set P \<and> balance P - 1 = 0"
    by (simp add: balance_pos_has_open)
next
  assume r: "c = CHR ''}'' \<and> CHR ''{'' \<in> set P \<and> balance P - 1 = 0"
  then have "balance (P @ [c]) = 0" by (simp add: balance_snoc braceDelta_def)
  moreover have "0 < balance (take (length P) (P @ [c]))" using r by simp
  ultimately show "closedText (P @ [c])" unfolding closedText_iff by (auto intro!: exI[of _ "length P"])
qed

lemma noClosed_snoc: "noClosed P \<Longrightarrow> \<not> closedText (P @ [c]) \<Longrightarrow> noClosed (P @ [c])"
  unfolding noClosed_def
proof (intro allI impI)
  fix m assume a: "\<forall>m\<le>length P. \<not> closedText (take m P)" and b: "\<not> closedText (P @ [c])" and m: "m \<le> length (P @ [c])"
  show "\<not> closedText (take m (P @ [c]))"
  proof (cases "m \<le> length P")
    case True
    with a show ?thesis by simp
  next
    case False
    with m have "m = Suc (length P)" by simp
    with b show ?thesis by simp
  qed
qed

lemma open_in_snoc: "(CHR ''{'' \<in> set (P @ [c])) = (c = CHR ''{'' \<or> CHR ''{'' \<in> set P)"
  by auto

lemma scanChars_inv:
  "noClosed P \<Longrightarrow>
   scanChars cs (balance P) (CHR ''{'' \<in> set P) =
     (if \<exists>k \<le> length cs. closedText (P @ take k cs) then None
      else Some (balance (P @ cs), CHR ''{'' \<in> set (P @ cs)))"
proof (induction cs arbitrary: P)
  case Nil
  then show ?case by (auto simp: noClosed_def dest: spec[of _ "length P"])
next
  case (Cons c cs)
  have nP: "\<not> closedText P" using Cons.prems by (auto simp: noClosed_def dest: spec[of _ "length P"])
  have ex_split: "(\<exists>k \<le> length (c # cs). closedText (P @ take k (c # cs)))
      \<longleftrightarrow> (closedText (P @ [c]) \<or> (\<exists>k \<le> length cs. closedText ((P @ [c]) @ take k cs)))"
  proof
    assume "\<exists>k \<le> length (c # cs). closedText (P @ take k (c # cs))"
    then obtain k where k: "k \<le> length (c # cs)" "closedText (P @ take k (c # cs))" by blast
    show "closedText (P @ [c]) \<or> (\<exists>k \<le> length cs. closedText ((P @ [c]) @ take k cs))"
    proof (cases k)
      case 0
      with k nP show ?thesis by simp
    next
      case (Suc j)
      with k show ?thesis by (auto intro: exI[of _ j])
    qed
  next
    assume "closedText (P @ [c]) \<or> (\<exists>k \<le> length cs. closedText ((P @ [c]) @ take k cs))"
    then show "\<exists>k \<le> length (c # cs). closedText (P @ take k (c # cs))"
    proof
      assume "closedText (P @ [c])"
      then show ?thesis by (intro exI[of _ "Suc 0"]) simp
    next
      assume "\<exists>k \<le> length cs. closedText ((P @ [c]) @ take k cs)"
      then obtain k where "k \<le> length cs" "closedText ((P @ [c]) @ take k cs)" by blast
      then show ?thesis by (intro exI[of _ "Suc k"]) simp
    qed
  qed
  show ?case
  proof (cases "closedText (P @ [c])")
    case True
    with closedText_snoc[OF Cons.prems, of c] ex_split show ?thesis by simp
  next
    case False
    note nc = noClosed_snoc[OF Cons.prems False]
    have st: "scanChars (c # cs) (balance P) (CHR ''{'' \<in> set P)
          = scanChars cs (balance (P @ [c])) (CHR ''{'' \<in> set (P @ [c]))"
      using False closedText_snoc[OF Cons.prems, of c]
      by (auto simp: balance_snoc braceDelta_def)
    show ?thesis unfolding st Cons.IH[OF nc] using ex_split False by simp
  qed
qed


lemma noClosed_app:
  assumes "noClosed P" and "\<forall>k \<le> length l. \<not> closedText (P @ take k l)"
  shows "noClosed (P @ l)"
  unfolding noClosed_def
proof (intro allI impI)
  fix m assume m: "m \<le> length (P @ l)"
  show "\<not> closedText (take m (P @ l))"
  proof (cases "m \<le> length P")
    case True
    with assms(1) show ?thesis by (simp add: noClosed_def)
  next
    case False
    then have "take m (P @ l) = P @ take (m - length P) l" by simp
    moreover have "m - length P \<le> length l" using m by simp
    ultimately show ?thesis using assms(2) by simp
  qed
qed

lemma noClosed_not_closed: "noClosed P \<Longrightarrow> \<not> closedText P"
  by (auto simp: noClosed_def dest: spec[of _ "length P"])

lemma scanLines_none:
  "noClosed P \<Longrightarrow> \<forall>n \<le> length (concat ls). \<not> closedText (P @ take n (concat ls))
   \<Longrightarrow> scanLines ls i (balance P) (CHR ''{'' \<in> set P) = None"
proof (induction ls arbitrary: P i)
  case Nil
  then show ?case by simp
next
  case (Cons l ls)
  have a: "\<forall>k \<le> length l. \<not> closedText (P @ take k l)"
  proof (intro allI impI)
    fix k assume "k \<le> length l"
    with Cons.prems(2)[rule_format, of k] show "\<not> closedText (P @ take k l)" by simp
  qed
  have nc: "noClosed (P @ l)" by (rule noClosed_app[OF Cons.prems(1) a])
  have b: "\<forall>n \<le> length (concat ls). \<not> closedText ((P @ l) @ take n (concat ls))"
  proof (intro allI impI)
    fix n assume "n \<le> length (concat ls)"
    with Cons.prems(2)[rule_format, of "length l + n"] show "\<not> closedText ((P @ l) @ take n (concat ls))" by simp
  qed
  show ?case using a Cons.IH[OF nc b] by (simp add: scanChars_inv[OF Cons.prems(1)])
qed

lemma scanLines_some:
  "noClosed P \<Longrightarrow> n \<le> length (concat ls) \<Longrightarrow> closedText (P @ take n (concat ls))
   \<Longrightarrow> \<forall>m < n. \<not> closedText (P @ take m (concat ls))
   \<Longrightarrow> scanLines ls i (balance P) (CHR ''{'' \<in> set P) = Some (i + lineOf ls (n - 1))"
proof (induction ls arbitrary: P i n)
  case Nil
  then show ?case by (simp add: noClosed_not_closed)
next
  case (Cons l ls)
  have npos: "0 < n" using Cons.prems(1,3) by (cases n) (auto simp: noClosed_not_closed)
  show ?case
  proof (cases "n \<le> length l")
    case True
    with Cons.prems(3) have "\<exists>k \<le> length l. closedText (P @ take k l)" by (intro exI[of _ n]) simp
    then show ?thesis using True npos by (simp add: scanChars_inv[OF Cons.prems(1)])
  next
    case False
    have a: "\<forall>k \<le> length l. \<not> closedText (P @ take k l)"
    proof (intro allI impI)
      fix k assume "k \<le> length l"
      with False Cons.prems(4)[rule_format, of k] show "\<not> closedText (P @ take k l)" by simp
    qed
    have nc: "noClosed (P @ l)" by (rule noClosed_app[OF Cons.prems(1) a])
    let ?n = "n - length l"
    have n1: "?n \<le> length (concat ls)" using Cons.prems(2) by simp
    have n2: "closedText ((P @ l) @ take ?n (concat ls))" using Cons.prems(3) False by simp
    have n3: "\<forall>m < ?n. \<not> closedText ((P @ l) @ take m (concat ls))"
    proof (intro allI impI)
      fix m assume "m < ?n"
      with Cons.prems(4)[rule_format, of "length l + m"] show "\<not> closedText ((P @ l) @ take m (concat ls))" by simp
    qed
    have "lineOf (l # ls) (n - 1) = Suc (lineOf ls (?n - 1))" using False by simp
    then show ?thesis using a Cons.IH[OF nc n1 n2 n3, of "Suc i"]
      by (simp add: scanChars_inv[OF Cons.prems(1)])
  qed
qed

lemma noClosed_Nil: "noClosed []"
  by (simp add: noClosed_def closedText_iff)

text \<open>
  Claim C7, as the code has it. \<open>findFunctionEnd\<close> is a total function (it never
  raises). Reading the lines from \<open>startLine\<close> on as one text \<open>T\<close>: if \<open>n\<close> is the length
  of the first prefix of \<open>T\<close> after which the brace balance has been positive and is zero
  again, the result is the line that holds the last character of that prefix, however far
  from \<open>startLine\<close> it lies. Only when no prefix of the whole remaining text closes is
  the result \<open>min (startLine + 50) (lines.length - 1)\<close>: the scan itself has no window of
  50 lines.
\<close>

theorem findFunctionEnd_first_close_or_fallback:
  "(neverCloses (concat (drop startLine lines))
      \<longrightarrow> findFunctionEnd lines startLine = min (int startLine + 50) (int (length lines) - 1))
   \<and> (firstClose (concat (drop startLine lines)) n
      \<longrightarrow> findFunctionEnd lines startLine
            = int (startLine + lineOf (drop startLine lines) (n - 1)))"
proof (intro conjI impI)
  assume "neverCloses (concat (drop startLine lines))"
  then have "scanLines (drop startLine lines) startLine (balance []) (CHR ''{'' \<in> set []) = None"
    by (intro scanLines_none[OF noClosed_Nil]) (simp add: neverCloses_iff)
  then show "findFunctionEnd lines startLine = min (int startLine + 50) (int (length lines) - 1)"
    by (simp add: findFunctionEnd_def balance_Nil)
next
  assume "firstClose (concat (drop startLine lines)) n"
  then have "scanLines (drop startLine lines) startLine (balance []) (CHR ''{'' \<in> set [])
      = Some (startLine + lineOf (drop startLine lines) (n - 1))"
    by (intro scanLines_some[OF noClosed_Nil]) (simp_all add: firstClose_iff)
  then show "findFunctionEnd lines startLine
      = int (startLine + lineOf (drop startLine lines) (n - 1))"
    by (simp add: findFunctionEnd_def balance_Nil)
qed

text \<open>Both cases occur: a body that is never closed (two lines, fallback to the last
  line), and a body closed on its third line.\<close>

theorem findFunctionEnd_first_close_or_fallback_witness:
  "neverCloses (concat (drop 0 [''function f() {'', ''  g();'']))
   \<and> findFunctionEnd [''function f() {'', ''  g();''] 0 = 1
   \<and> firstClose (concat (drop 1 [''// c'', ''function f() {'', ''  g();'', ''}'', ''h();''])) 21
   \<and> findFunctionEnd [''// c'', ''function f() {'', ''  g();'', ''}'', ''h();''] 1 = 3"
proof -
  have n: "neverCloses (concat (drop 0 [''function f() {'', ''  g();'']))"
    by code_simp
  have f: "firstClose (concat (drop 1 [''// c'', ''function f() {'', ''  g();'', ''}'', ''h();''])) 21"
    by code_simp
  have l: "lineOf (drop 1 [''// c'', ''function f() {'', ''  g();'', ''}'', ''h();'']) (21 - 1) = 2"
    by code_simp
  from n f l
    findFunctionEnd_first_close_or_fallback[of 0 "[''function f() {'', ''  g();'']" 0]
    findFunctionEnd_first_close_or_fallback[of 1
      "[''// c'', ''function f() {'', ''  g();'', ''}'', ''h();'']" 21]
  show ?thesis by simp
qed

text \<open>
  Claim C7 as the specification states it fails: a body of 62 lines whose only closing
  brace is on line index 61 has no closing brace among its first 61 lines, so the balance
  does not return to zero within 50 lines of the start; the result is nevertheless 61, not
  the cap \<open>startLine + 50 = 50\<close>.
\<close>

theorem findFunctionEnd_window_counterexample:
  "CHR ''}'' \<notin> set (concat (take 61 (''function f() {'' # replicate 60 ''  g();'' @ [''}''])))
   \<and> findFunctionEnd (''function f() {'' # replicate 60 ''  g();'' @ [''}'']) 0 = 61
   \<and> min (int 0 + 50) (int (length (''function f() {'' # replicate 60 ''  g();'' @ [''}''])) - 1) = 50"
  by code_simp

subsection \<open>Traces of the example corpora\<close>

lemma trace_corpusA:
  "traceCallChain corpusA traceB initialState =
     (Some 0,
      \<lparr>heap =
         [\<lparr>CallChainNode.functionName = ''b'', path = ''a'', line = 1,
           signature = ''function b(){ c(); }'', language = ''Unknown'',
           callers = [], callees = [1], depth = 0\<rparr>,
          \<lparr>CallChainNode.functionName = ''c'', path = ''external'', line = 0,
           signature = ''c()'', language = ''unknown'', callers = [], callees = [], depth = 1\<rparr>],
       functionCache = [(''b:/r'', 0)], visited = [], clock = 3\<rparr>)"
  by code_simp


lemma trace_corpusAjs:
  "traceCallChain corpusAjs traceB initialState =
     (Some 0,
      \<lparr>heap =
         [\<lparr>CallChainNode.functionName = ''b'', path = ''a.js'', line = 1,
           signature = ''function b(){ c(); }'', language = ''JavaScript'',
           callers = [], callees = [1], depth = 0\<rparr>,
          \<lparr>CallChainNode.functionName = ''c'', path = ''external'', line = 0,
           signature = ''c()'', language = ''unknown'', callers = [], callees = [], depth = 1\<rparr>],
       functionCache = [(''b:/r'', 0)], visited = [], clock = 3\<rparr>)"
  by code_simp

lemma trace_corpusExternal:
  "traceCallChain corpusExternal traceB initialState =
     (Some 0,
      \<lparr>heap =
         [\<lparr>CallChainNode.functionName = ''b'', path = ''a.js'', line = 1,
           signature = ''function b(){ c(); }'', language = ''JavaScript'',
           callers = [], callees = [1, 2], depth = 2\<rparr>,
          \<lparr>CallChainNode.functionName = ''c'', path = ''external'', line = 0,
           signature = ''c()'', language = ''unknown'', callers = [], callees = [0], depth = 1\<rparr>,
          \<lparr>CallChainNode.functionName = ''c'', path = ''external'', line = 0,
           signature = ''c()'', language = ''unknown'', callers = [], callees = [], depth = 3\<rparr>],
       functionCache = [(''b:/r'', 0)], visited = [], clock = 4\<rparr>)"
  by code_simp

subsection \<open>Callers in one file\<close>

lemma pushCaller_names:
  "\<forall>x \<in> set cs. CallChainNode.functionName x \<noteq> fname
   \<Longrightarrow> \<forall>x \<in> set (pushCaller lines i fname lang rel cs). CallChainNode.functionName x \<noteq> fname"
  by (auto simp: pushCaller_def split: option.splits)

lemma fold_pushCaller_names:
  "\<forall>x \<in> set cs. CallChainNode.functionName x \<noteq> fname
   \<Longrightarrow> \<forall>x \<in> set (fold (\<lambda>m acc. pushCaller lines i fname lang rel acc) ms cs).
         CallChainNode.functionName x \<noteq> fname"
proof (induction ms arbitrary: cs)
  case Nil
  then show ?case by simp
next
  case (Cons m ms)
  show ?case using Cons.IH[OF pushCaller_names[OF Cons.prems]] by simp
qed

lemma callersLoop_names:
  "\<forall>x \<in> set cs. CallChainNode.functionName x \<noteq> fname
   \<Longrightarrow> \<forall>x \<in> set (callersLoop is lines pat fname lang rel cs). CallChainNode.functionName x \<noteq> fname"
proof (induction "is" arbitrary: cs)
  case Nil
  then show ?case by simp
next
  case (Cons i "is")
  show ?case
  proof (cases "lines ! i = []")
    case True
    then show ?thesis using Cons.IH[OF Cons.prems] by simp
  next
    case False
    then show ?thesis using Cons.IH[OF fold_pushCaller_names[OF Cons.prems]] by simp
  qed
qed

text \<open>
  Claim C10. In \<open>findCallersInFile\<close> a call site whose enclosing function, as found by the
  backward scan of \<open>findContainingFunction\<close>, bears the name of the target leaves the
  list of callers as it is; hence no node that \<open>findCallersInFile\<close> returns for a target
  bears the target's name, and a function that calls itself is not among its own callers.
\<close>

theorem self_call_is_no_caller:
  "(findContainingFunction lines i lang = Some c \<and> cname c = fname
      \<longrightarrow> pushCaller lines i fname lang rel cs = cs)
   \<and> (\<forall>x \<in> set (findCallersInFile w filePath fname lang rootPath).
         CallChainNode.functionName x \<noteq> fname)"
proof (intro conjI impI)
  assume "findContainingFunction lines i lang = Some c \<and> cname c = fname"
  then show "pushCaller lines i fname lang rel cs = cs" by (simp add: pushCaller_def)
next
  show "\<forall>x \<in> set (findCallersInFile w filePath fname lang rootPath). CallChainNode.functionName x \<noteq> fname"
  proof (cases "readFile w filePath")
    case None
    then show ?thesis by (simp add: findCallersInFile_def)
  next
    case content: (Some content)
    show ?thesis
    proof (cases "callPatternOf w fname")
      case None
      with content show ?thesis by (simp add: findCallersInFile_def)
    next
      case (Some pat)
      have "\<forall>x \<in> set (callersLoop [0..<length (splitLines content)] (splitLines content) pat
               fname lang (relative rootPath filePath) []). CallChainNode.functionName x \<noteq> fname"
        by (rule callersLoop_names) simp
      then show ?thesis using content Some by (simp add: findCallersInFile_def Let_def)
    qed
  qed
qed


text \<open>In \<open>linesSelf\<close> the call of \<open>f\<close> on line index 1 lies in \<open>f\<close> itself and adds no
  caller; the callers of \<open>f\<close> in the file are \<open>g\<close> alone.\<close>

theorem self_call_is_no_caller_witness:
  "map_option cname (findContainingFunction linesSelf 1 ''JavaScript'') = Some ''f''
   \<and> pushCaller linesSelf 1 ''f'' ''JavaScript'' ''s.js'' [] = []
   \<and> map CallChainNode.functionName (findCallersInFile corpusSelf ''/r/s.js'' ''f'' ''JavaScript'' ''/r'') = [''g'']
   \<and> ''f'' \<notin> set (map CallChainNode.functionName
                       (findCallersInFile corpusSelf ''/r/s.js'' ''f'' ''JavaScript'' ''/r''))"
proof -
  have c: "findContainingFunction linesSelf 1 ''JavaScript''
      = Some \<lparr>cname = ''f'', cline = 1, csignature = ''function f(n) {''\<rparr>"
    by code_simp
  have g: "map CallChainNode.functionName
      (findCallersInFile corpusSelf ''/r/s.js'' ''f'' ''JavaScript'' ''/r'') = [''g'']"
    by code_simp
  from c g
    self_call_is_no_caller[of linesSelf 1 "''JavaScript''"
      "\<lparr>cname = ''f'', cline = 1, csignature = ''function f(n) {''\<rparr>" "''f''" "''s.js''" "[]"
      corpusSelf "''/r/s.js''" "''/r''"]
  show ?thesis by auto
qed

subsection \<open>Callee names of a body\<close>

lemma calleeNames_props:
  "distinct (calleeNames gs fname found)
   \<and> set (calleeNames gs fname found)
       = {g. Some g \<in> set gs \<and> g \<noteq> [] \<and> g \<noteq> fname \<and> g \<notin> set found}"
proof (induction gs arbitrary: found)
  case Nil
  then show ?case by simp
next
  case (Cons g gs)
  show ?case
  proof (cases g)
    case None
    then show ?thesis using Cons.IH[of found] by auto
  next
    case (Some n)
    show ?thesis
    proof (cases "n \<noteq> [] \<and> n \<noteq> fname \<and> n \<notin> set found")
      case True
      then show ?thesis using Some Cons.IH[of "found @ [n]"] by auto
    next
      case False
      then show ?thesis using Some Cons.IH[of found] by auto
    qed
  qed
qed

text \<open>
  Claim C4, as the code has it. The names that \<open>findCalleesInFile\<close> takes from a function
  body are without repetition, and they are exactly the non-empty texts that the pattern
  \<open>\b(\w+)\s*\(\<close> captures in the body, other than the function's own name. Nothing else
  is removed: the tracer has no list of keywords or builtins and no \<open>includeBuiltins\<close> input.
\<close>

theorem callee_names_deduplicated_not_filtered:
  "distinct (extractCalleeNames functionBody fname)
   \<and> set (extractCalleeNames functionBody fname)
       = {g. Some g \<in> set (map match1 (matchAll False calleePattern functionBody))
             \<and> g \<noteq> [] \<and> g \<noteq> fname}"
  using calleeNames_props[of "map match1 (matchAll False calleePattern functionBody)" fname "[]"]
  by (simp add: extractCalleeNames_def)


lemma trace_corpusIf:
  "traceCallChain corpusIf traceF initialState =
     (Some 0,
      \<lparr>heap =
         [\<lparr>CallChainNode.functionName = ''f'', path = ''k.js'', line = 1,
           signature = ''function f() {'', language = ''JavaScript'',
           callers = [], callees = [1, 2, 3], depth = 0\<rparr>,
          \<lparr>CallChainNode.functionName = ''if'', path = ''external'', line = 0,
           signature = ''if()'', language = ''unknown'', callers = [], callees = [], depth = 1\<rparr>,
          \<lparr>CallChainNode.functionName = ''ok'', path = ''external'', line = 0,
           signature = ''ok()'', language = ''unknown'', callers = [], callees = [], depth = 1\<rparr>,
          \<lparr>CallChainNode.functionName = ''g'', path = ''external'', line = 0,
           signature = ''g()'', language = ''unknown'', callers = [], callees = [], depth = 1\<rparr>],
       functionCache = [(''f:/r'', 0)], visited = [], clock = 2\<rparr>)"
  by code_simp

text \<open>
  Claim C4 as the specification states it fails: tracing the callees of \<open>f\<close> in
  \<open>corpusIf\<close>, whose body holds \<open>if (ok(1)) { g(); g(); }\<close>, gives the callee nodes \<open>if\<close>,
  \<open>ok\<close> and \<open>g\<close>; the keyword \<open>if\<close> is a callee node (and \<open>g\<close> appears once).
\<close>

theorem keyword_is_callee_counterexample:
  "(case traceCallChain corpusIf traceF initialState of
      (r, st) \<Rightarrow> r = Some 0
        \<and> map (\<lambda>a. CallChainNode.functionName (heap st ! a)) (callees (heap st ! 0))
            = [''if'', ''ok'', ''g''])"
  by (simp add: trace_corpusIf)

subsection \<open>The function resolver\<close>
















subsection \<open>A function that is not in the corpus\<close>




subsection \<open>Placeholders and \<open>includeExternal\<close>\<close>













subsection \<open>Nodes once found stay in the store\<close>

















subsection \<open>The time-out\<close>








subsection \<open>The language filter of callee resolution\<close>

lemma byExtension_in:
  "byExtension tab e = Some n \<Longrightarrow> n \<in> set (map (\<lambda>(key, name, exts). name) tab)"
  by (induction tab e rule: byExtension.induct) (auto split: if_splits)

lemma Text_in: "''Text'' \<in> set languageNames"
  by (simp add: languageNames_def)

lemma supported_in:
  "n \<in> set (map (\<lambda>(key, name, exts). name) SUPPORTED_LANGUAGES) \<Longrightarrow> n \<in> set languageNames"
  by (simp add: languageNames_def)

lemma languageNameOf_in: "languageNameOf k = Some n \<Longrightarrow> n \<in> set languageNames"
proof -
  assume "languageNameOf k = Some n"
  then obtain exts where "map_of SUPPORTED_LANGUAGES k = Some (n, exts)"
    by (auto simp: languageNameOf_def)
  then have "(k, n, exts) \<in> set SUPPORTED_LANGUAGES" by (rule map_of_SomeD)
  then have "n \<in> set (map (\<lambda>(key, name, exts). name) SUPPORTED_LANGUAGES)" by force
  then show ?thesis by (rule supported_in)
qed

lemma bySpecialFile_in: "bySpecialFile sp f = Some n \<Longrightarrow> n \<in> set languageNames"
proof (induction sp f rule: bySpecialFile.induct)
  case (1 fileName)
  then show ?case by simp
next
  case (2 pattern langKey rest fileName)
  then show ?case
    by (auto simp: Text_in dest: languageNameOf_in split: if_splits option.splits)
qed

lemma detectLanguage_in: "detectLanguage f = Some n \<Longrightarrow> n \<in> set languageNames"
proof -
  assume a: "detectLanguage f = Some n"
  let ?e = "toLowerCase (drop 1 (extname f))"
  let ?b = "toLowerCase (basename f)"
  from a consider "byExtension SUPPORTED_LANGUAGES ?e = Some n"
    | "bySpecialFile SPECIAL_FILES ?b = Some n" | "languageNameOf ''shell'' = Some n"
    by (auto simp: detectLanguage_def Let_def split: option.splits if_splits)
  then show ?thesis
  proof cases
    case 1
    then show ?thesis by (intro supported_in byExtension_in)
  next
    case 2
    then show ?thesis by (rule bySpecialFile_in)
  next
    case 3
    then show ?thesis by (rule languageNameOf_in)
  qed
qed

lemma of_char_lowerChar:
  "isUpperAscii c \<Longrightarrow> of_char (lowerChar c) = (of_char c :: nat) + 32"
proof -
  assume u: "isUpperAscii c"
  then have "(of_char c :: nat) \<le> 90"
    by (simp add: isUpperAscii_def less_eq_char_def)
  then have "((of_char c :: nat) + 32) mod 256 = of_char c + 32" by simp
  then show ?thesis using u by (simp add: lowerChar_def)
qed

lemma lowerChar_not_upper: "\<not> isUpperAscii (lowerChar c)"
proof (cases "isUpperAscii c")
  case True
  then have "65 \<le> (of_char c :: nat)" by (simp add: isUpperAscii_def less_eq_char_def)
  with of_char_lowerChar[OF True] show ?thesis
    by (simp add: isUpperAscii_def less_eq_char_def)
next
  case False
  then show ?thesis by (simp add: lowerChar_def)
qed

lemma toLowerCase_no_upper: "\<not> list_ex isUpperAscii (toLowerCase s)"
  by (induction s) (simp_all add: toLowerCase_def lowerChar_not_upper)

lemma languageNames_upper: "list_all (list_ex isUpperAscii) (''Unknown'' # languageNames)"
  by code_simp

lemma display_not_lower: "n \<in> set (''Unknown'' # languageNames) \<Longrightarrow> toLowerCase m \<noteq> n"
proof
  assume n: "n \<in> set (''Unknown'' # languageNames)" and e: "toLowerCase m = n"
  from languageNames_upper have "\<forall>x \<in> set (''Unknown'' # languageNames). list_ex isUpperAscii x"
    by (simp only: list_all_iff)
  with n have "list_ex isUpperAscii n" by blast
  with e toLowerCase_no_upper[of m] show False by simp
qed

lemma lower_not_unknown: "list_all (\<lambda>m. toLowerCase m \<noteq> ''unknown'') languageNames"
  by code_simp

text \<open>
  The language of a node is a display name (\<open>JavaScript\<close>, \<open>Unknown\<close>) or \<open>unknown\<close>.
  \<open>findCalleesInFile\<close> passes it to \<open>findFunction\<close> as the one-element language filter,
  and the filter compares the lower-case name of each file's language with it: every file
  is skipped, whatever its language.
\<close>

lemma nodeLanguage_filter_skips:
  assumes "lang \<in> set nodeLanguages"
  shows "skippedByLanguage (Some [lang]) (detectLanguage g)"
proof (cases "detectLanguage g")
  case None
  then show ?thesis by (simp add: skippedByLanguage_def)
next
  case (Some m)
  then have m: "m \<in> set languageNames" by (rule detectLanguage_in)
  have "toLowerCase m \<noteq> lang"
  proof (cases "lang = ''unknown''")
    case True
    with m lower_not_unknown show ?thesis by (simp add: list_all_iff)
  next
    case False
    with assms have "lang \<in> set (''Unknown'' # languageNames)" by (simp add: nodeLanguages_def)
    then show ?thesis by (rule display_not_lower)
  qed
  with Some show ?thesis by (simp add: skippedByLanguage_def)
qed

lemma searchFiles_nodeLanguage:
  "lang \<in> set nodeLanguages \<Longrightarrow> searchFiles w fname rootPath (Some [lang]) fs = None"
  by (induction fs) (simp_all add: nodeLanguage_filter_skips)

text \<open>Hence a callee whose key is not in the cache is never resolved.\<close>

lemma findFunction_nodeLanguage:
  "lang \<in> set nodeLanguages
   \<Longrightarrow> map_of (functionCache st) (fname @ '':'' @ rootPath) = None
   \<Longrightarrow> findFunction w fname rootPath (Some [lang]) st = (None, st)"
  by (simp add: findFunction_def Let_def searchFiles_nodeLanguage)


subsection \<open>The cycle scenario and the cached root\<close>

text \<open>
  Claim C1, evaluated on the code. In the scenario of the specification (\<open>trace("b",
  direction=callees, maxDepth=3)\<close> over one file that defines \<open>b\<close> calling \<open>c\<close> and \<open>c\<close>
  calling \<open>b\<close>) the root \<open>b\<close> gets the one callee \<open>c\<close>, but \<open>c\<close> is the placeholder with
  path \<open>external\<close> and has no callees: \<open>findCalleesInFile\<close> passes the display name of the
  language (\<open>Unknown\<close>, \<open>JavaScript\<close>) to \<open>findFunction\<close> as its language filter, which
  compares it with lower-case names and finds no file. This holds for the file named \<open>a\<close>
  and for the file named \<open>a.js\<close>.
\<close>

theorem cycle_scenario_callee_unresolved:
  "(case traceCallChain corpusA traceB initialState of
      (r, st) \<Rightarrow> r = Some 0
        \<and> CallChainNode.functionName (heap st ! 0) = ''b'' \<and> callees (heap st ! 0) = [1]
        \<and> CallChainNode.functionName (heap st ! 1) = ''c''
        \<and> CallChainNode.path (heap st ! 1) = ''external'' \<and> callees (heap st ! 1) = [])
   \<and> (case traceCallChain corpusAjs traceB initialState of
      (r, st) \<Rightarrow> r = Some 0
        \<and> CallChainNode.functionName (heap st ! 0) = ''b'' \<and> callees (heap st ! 0) = [1]
        \<and> CallChainNode.functionName (heap st ! 1) = ''c''
        \<and> CallChainNode.path (heap st ! 1) = ''external'' \<and> callees (heap st ! 1) = [])"
  by (simp add: trace_corpusA trace_corpusAjs)

text \<open>In the trace of \<open>corpusExternal\<close> the nodes 0 and 1 reach each other, so rendering
  them exceeds every recursion limit.\<close>

lemma cyclic_render_overflows:
  "renderNode fuel (heap (snd (traceCallChain corpusExternal traceB initialState))) 0 = None
   \<and> renderNode fuel (heap (snd (traceCallChain corpusExternal traceB initialState))) 1 = None"
proof (induction fuel)
  case 0
  then show ?case by simp
next
  case (Suc fuel)
  then show ?case by (simp add: trace_corpusExternal)
qed

text \<open>
  Claim C2, evaluated on the code. In \<open>corpusExternal\<close> the placeholder \<open>c\<close> is expanded
  from the file \<open>/r/external\<close>, its callee \<open>b\<close> is answered from the cache with the root
  object itself, and \<open>findCallees\<close> writes the depth of that object and pushes it: the
  root (address 0) is a callee of its own callee (address 1), its depth has become 2, and
  \<open>execute\<close> ends in a stack overflow on the cyclic structure.
\<close>

theorem root_reattached_below_itself:
  "(case traceCallChain corpusExternal traceB initialState of
      (r, st) \<Rightarrow> r = Some 0
        \<and> callees (heap st ! 0) = [1, 2] \<and> callees (heap st ! 1) = [0]
        \<and> depth (heap st ! 0) = 2)
   \<and> execute corpusExternal (Some traceB) = Inl MaximumCallStack"
proof -
  have p: "pathExists corpusExternal (TraceCallChainInput.path traceB)"
    by code_simp
  have g: "generateReport (stackLimit corpusExternal)
      (heap (snd (traceCallChain corpusExternal traceB initialState))) (Some 0) traceB = None"
  proof -
    have d: "direction traceB = Callees"
      by (simp add: traceB_def)
    show ?thesis
      using cyclic_render_overflows[of "stackLimit corpusExternal"]
      by (simp add: generateReport_def renderCallTree_def trace_corpusExternal d)
  qed
  have e: "execute corpusExternal (Some traceB) = Inl MaximumCallStack"
    using p g by (simp add: execute_def trace_corpusExternal)
  show ?thesis using e by (simp add: trace_corpusExternal)
qed

text \<open>
  Claim C3, evaluated on the code, on the same trace: the traversal root, no edge away
  from itself, has depth 2; and the node at address 2, a direct callee of the root (one
  edge), has depth 3, because it was pushed when the root object was expanded a second
  time at depth 2.
\<close>

theorem depth_differs_from_edge_count:
  "(case traceCallChain corpusExternal traceB initialState of
      (r, st) \<Rightarrow> r = Some 0 \<and> depth (heap st ! 0) = 2
        \<and> 2 \<in> set (callees (heap st ! 0)) \<and> depth (heap st ! 2) = 3)
   \<and> maxDepth traceB = 3"
  by (simp add: trace_corpusExternal) (simp add: traceB_def)


subsection \<open>The bound on the depth\<close>

lemma depthBounded_heap_eq: "heap st' = heap st \<Longrightarrow> depthBounded M st' = depthBounded M st"
  by (simp add: depthBounded_def)

lemma depthBounded_alloc:
  "depthBounded M st \<Longrightarrow> int (depth nd) \<le> M \<Longrightarrow> depthBounded M (snd (alloc nd st))"
  by (auto simp: depthBounded_def alloc_def)

lemma searchFiles_depth: "searchFiles w fname rootPath langs fs = Some nd \<Longrightarrow> depth nd = 0"
  by (induction fs) (auto simp: searchFunctionInFile_def Let_def split: if_splits option.splits)

lemma findFunction_depthBounded:
  "0 \<le> M \<Longrightarrow> depthBounded M st \<Longrightarrow> depthBounded M (snd (findFunction w fname rootPath langs st))"
  by (auto simp: findFunction_def alloc_def Let_def depthBounded_def dest: searchFiles_depth
        split: option.splits)

lemma resolveCallee_depthBounded:
  "0 \<le> M \<Longrightarrow> depthBounded M (snd acc) \<Longrightarrow> depthBounded M (snd (resolveCallee w rootPath lang n acc))"
proof -
  assume M: "0 \<le> M" and b: "depthBounded M (snd acc)"
  obtain cs st where acc: "acc = (cs, st)" by (cases acc)
  obtain r st' where f: "findFunction w n rootPath (Some [lang]) st = (r, st')"
    by (cases "findFunction w n rootPath (Some [lang]) st")
  from findFunction_depthBounded[OF M, of st w n rootPath "Some [lang]"] b acc f
  have b': "depthBounded M st'" by simp
  show ?thesis
  proof (cases r)
    case None
    with acc f b' show ?thesis
      by (auto simp: resolveCallee_def alloc_def depthBounded_def placeholder_def M)
  next
    case (Some a)
    with acc f b' show ?thesis by (simp add: resolveCallee_def)
  qed
qed

lemma fold_resolveCallee_depthBounded:
  "0 \<le> M \<Longrightarrow> depthBounded M (snd acc)
   \<Longrightarrow> depthBounded M (snd (fold (resolveCallee w rootPath lang) names acc))"
  by (induction names arbitrary: acc) (simp_all add: resolveCallee_depthBounded)

lemma findCalleesInFile_depthBounded:
  "0 \<le> M \<Longrightarrow> depthBounded M st
   \<Longrightarrow> depthBounded M (snd (findCalleesInFile w filePath fname lang rootPath st))"
  by (auto simp: findCalleesInFile_def Let_def fold_resolveCallee_depthBounded
        split: option.splits)

lemma update_preserves:
  assumes "\<forall>n \<in> set h. P n" and "\<And>n. P n \<Longrightarrow> P (f n)"
  shows "\<forall>n \<in> set (h[a := f (h ! a)]). P n"
proof (cases "a < length h")
  case True
  then have "P (f (h ! a))" using assms by simp
  then show ?thesis using assms(1) set_update_subset_insert[of h a "f (h ! a)"] by auto
next
  case False
  then show ?thesis using assms(1) by (simp add: list_update_beyond)
qed

lemma attachCallee_depthBounded:
  assumes b: "depthBounded M st" and d: "int d + 1 \<le> M"
  shows "depthBounded M (attachCallee a d c st)"
proof -
  let ?h1 = "(heap st)[c := (heap st ! c)\<lparr>depth := d + 1\<rparr>]"
  have 1: "\<forall>n \<in> set ?h1. int (depth n) \<le> M"
  proof (cases "c < length (heap st)")
    case True
    have "set ?h1 \<subseteq> insert ((heap st ! c)\<lparr>depth := d + 1\<rparr>) (set (heap st))"
      by (rule set_update_subset_insert)
    then show ?thesis using b d by (auto simp: depthBounded_def)
  next
    case False
    then show ?thesis using b by (simp add: depthBounded_def list_update_beyond)
  qed
  have "\<forall>n \<in> set (?h1[a := (\<lambda>n. n\<lparr>callees := callees n @ [c]\<rparr>) (?h1 ! a)]). int (depth n) \<le> M"
    by (rule update_preserves[OF 1]) simp
  then show ?thesis by (simp add: attachCallee_def depthBounded_def Let_def)
qed

lemma attachCaller_depthBounded:
  assumes b: "depthBounded M st" and d: "int d + 1 \<le> M"
  shows "depthBounded M (snd (attachCaller a d caller st))"
proof -
  let ?h1 = "heap st @ [caller\<lparr>depth := d + 1\<rparr>]"
  have 1: "\<forall>n \<in> set ?h1. int (depth n) \<le> M"
    using b d by (auto simp: depthBounded_def)
  have "\<forall>n \<in> set (?h1[a := (\<lambda>n. n\<lparr>callers := callers n @ [length (heap st)]\<rparr>) (?h1 ! a)]).
          int (depth n) \<le> M"
    by (rule update_preserves[OF 1]) simp
  then show ?thesis by (simp add: attachCaller_def alloc_def depthBounded_def Let_def)
qed

lemma findCallees_depthBounded:
  "0 \<le> maxDepth inp \<Longrightarrow> depthBounded (maxDepth inp) st
   \<Longrightarrow> depthBounded (maxDepth inp) (findCallees w inp a d s t st)"
proof (induction "nat (maxDepth inp - int d)" arbitrary: a d st rule: less_induct)
  case less
  let ?M = "maxDepth inp"
  let ?st1 = "st\<lparr>clock := Suc (clock st)\<rparr>"
  have b1: "depthBounded ?M ?st1" using less.prems(2) by (simp add: depthBounded_def)
  show ?case
  proof (cases "now w (clock st) - s > t \<or> int d \<ge> ?M
                \<or> nodeKeyOf (heap st ! a) d \<in> set (visited st)")
    case True
    then have "findCallees w inp a d s t st = ?st1"
      by (subst findCallees.simps) (auto simp: readClock_def Let_def)
    with b1 show ?thesis by simp
  next
    case False
    then have d: "int d + 1 \<le> ?M" by simp
    let ?key = "nodeKeyOf (heap st ! a) d"
    obtain cl st2 where c: "findCalleesInFile w
          (resolveFullPath (CallChainNode.path (heap st ! a)) (TraceCallChainInput.path inp))
          (CallChainNode.functionName (heap st ! a)) (language (heap st ! a))
          (TraceCallChainInput.path inp) (addVisited ?key ?st1) = (cl, st2)"
      by (cases "findCalleesInFile w
          (resolveFullPath (CallChainNode.path (heap st ! a)) (TraceCallChainInput.path inp))
          (CallChainNode.functionName (heap st ! a)) (language (heap st ! a))
          (TraceCallChainInput.path inp) (addVisited ?key ?st1)")
    have "depthBounded ?M (addVisited ?key ?st1)"
      using b1 by (simp add: depthBounded_def addVisited_def)
    from findCalleesInFile_depthBounded[OF less.prems(1) this] c
    have b2: "depthBounded ?M st2" by (metis snd_conv)
    let ?body = "\<lambda>c u. (let u' = attachCallee a d c u
                          in if int d + 1 < ?M then findCallees w inp c (d + 1) s t u' else u')"
    have step: "\<And>c u. depthBounded ?M u \<Longrightarrow> depthBounded ?M (?body c u)"
    proof -
      fix c u assume bs: "depthBounded ?M u"
      have ba: "depthBounded ?M (attachCallee a d c u)"
        by (rule attachCallee_depthBounded[OF bs d])
      show "depthBounded ?M (?body c u)"
      proof (cases "int d + 1 < ?M")
        case True
        then have "nat (?M - int (d + 1)) < nat (?M - int d)" by simp
        from less.hyps[OF this less.prems(1) ba] True show ?thesis by (simp add: Let_def)
      next
        case False
        with ba show ?thesis by (simp add: Let_def)
      qed
    qed
    have bf: "depthBounded ?M (fold ?body cl st2)"
      by (rule fold_invariant[where Q = "\<lambda>x. True" and P = "depthBounded ?M"])
         (simp_all add: b2 step)
    have eq: "findCallees w inp a d s t st = deleteVisited ?key (fold ?body cl st2)"
      using False c by (subst findCallees.simps) (simp add: readClock_def Let_def)
    show ?thesis unfolding eq using bf by (simp add: depthBounded_def deleteVisited_def)
  qed
qed


lemma findCallers_depthBounded:
  "0 \<le> maxDepth inp \<Longrightarrow> depthBounded (maxDepth inp) st
   \<Longrightarrow> depthBounded (maxDepth inp) (findCallers w inp a d s t st)"
proof (induction "nat (maxDepth inp - int d)" arbitrary: a d st rule: less_induct)
  case less
  let ?M = "maxDepth inp"
  let ?st1 = "st\<lparr>clock := Suc (clock st)\<rparr>"
  have b1: "depthBounded ?M ?st1" using less.prems(2) by (simp add: depthBounded_def)
  show ?case
  proof (cases "now w (clock st) - s > t \<or> int d \<ge> ?M
                \<or> nodeKeyOf (heap st ! a) d \<in> set (visited st)")
    case True
    then have "findCallers w inp a d s t st = ?st1"
      by (subst findCallers.simps) (auto simp: readClock_def Let_def)
    with b1 show ?thesis by simp
  next
    case False
    then have d: "int d + 1 \<le> ?M" by simp
    let ?key = "nodeKeyOf (heap st ! a) d"
    let ?inner = "\<lambda>caller u. (case attachCaller a d caller u of
                     (c, u') \<Rightarrow> if int d + 1 < ?M
                                then findCallers w inp c (d + 1) s t u' else u')"
    let ?outer = "\<lambda>filePath u.
        (let lang = detectLanguage filePath
         in if skippedByLanguage (languages inp) lang then u
            else fold ?inner
                   (findCallersInFile w filePath (CallChainNode.functionName (heap st ! a))
                      (languageOrUnknown lang) (TraceCallChainInput.path inp))
                   u)"
    have inner: "\<And>caller u. depthBounded ?M u \<Longrightarrow> depthBounded ?M (?inner caller u)"
    proof -
      fix caller u assume bu: "depthBounded ?M u"
      obtain c u' where at: "attachCaller a d caller u = (c, u')"
        by (cases "attachCaller a d caller u")
      from attachCaller_depthBounded[OF bu d, of a caller] at
      have ba: "depthBounded ?M u'" by simp
      show "depthBounded ?M (?inner caller u)"
      proof (cases "int d + 1 < ?M")
        case True
        then have "nat (?M - int (d + 1)) < nat (?M - int d)" by simp
        from less.hyps[OF this less.prems(1) ba] True at show ?thesis by simp
      next
        case False
        with ba at show ?thesis by simp
      qed
    qed
    have outer: "\<And>filePath u. depthBounded ?M u \<Longrightarrow> depthBounded ?M (?outer filePath u)"
    proof -
      fix filePath u assume bu: "depthBounded ?M u"
      have "\<And>xs. depthBounded ?M (fold ?inner xs u)"
        by (rule fold_invariant[where Q = "\<lambda>x. True" and P = "depthBounded ?M"])
           (simp_all add: bu inner)
      then show "depthBounded ?M (?outer filePath u)" using bu by (simp add: Let_def)
    qed
    have b2: "depthBounded ?M (addVisited ?key ?st1)"
      using b1 by (simp add: depthBounded_def addVisited_def)
    have bf: "\<And>fs. depthBounded ?M (fold ?outer fs (addVisited ?key ?st1))"
      by (rule fold_invariant[where Q = "\<lambda>x. True" and P = "depthBounded ?M"])
         (simp_all add: b2 outer)
    have eq: "findCallers w inp a d s t st
        = deleteVisited ?key
            (fold ?outer (getAllFiles w (TraceCallChainInput.path inp)
                            (map_option getExtensionsForLanguages (languages inp)))
               (addVisited ?key ?st1))"
      using False by (subst findCallers.simps) (simp add: readClock_def Let_def cong: if_cong)
    show ?thesis unfolding eq using bf by (simp add: depthBounded_def deleteVisited_def)
  qed
qed

text \<open>Every node in the store of a trace has a depth of at most \<open>maxDepth\<close>, when
  \<open>maxDepth\<close> is not negative: a depth is written only as \<open>currentDepth + 1\<close> below the
  test \<open>currentDepth >= input.maxDepth\<close>.\<close>

lemma traceCallChain_depthBounded:
  assumes M: "0 \<le> maxDepth inp"
  shows "depthBounded (maxDepth inp) (snd (traceCallChain w inp initialState))"
proof -
  let ?M = "maxDepth inp"
  have b0: "depthBounded ?M initialState" by (simp add: depthBounded_def initialState_def)
  obtain r st where f: "findFunction w (TraceCallChainInput.functionName inp)
      (TraceCallChainInput.path inp) (languages inp) initialState = (r, st)"
    by (cases "findFunction w (TraceCallChainInput.functionName inp)
      (TraceCallChainInput.path inp) (languages inp) initialState")
  from findFunction_depthBounded[OF M b0, of w "TraceCallChainInput.functionName inp"
      "TraceCallChainInput.path inp" "languages inp"] f
  have b: "depthBounded ?M st" by simp
  show ?thesis
  proof (cases r)
    case None
    with f b show ?thesis by (simp add: traceCallChain_def)
  next
    case (Some root)
    let ?st1 = "st\<lparr>visited := [], clock := Suc (clock st)\<rparr>"
    have b1: "depthBounded ?M ?st1" using b by (simp add: depthBounded_def)
    let ?st2 = "if direction inp = Callers \<or> direction inp = Both
                then findCallers w inp root 0 (now w (clock st)) 30000 ?st1 else ?st1"
    have b2: "depthBounded ?M ?st2"
      using b1 findCallers_depthBounded[OF M b1, of w root 0 "now w (clock st)" 30000]
      by (cases "direction inp") simp_all
    let ?st3 = "if direction inp = Callees \<or> direction inp = Both
                then findCallees w inp root 0 (now w (clock st)) 30000 ?st2 else ?st2"
    have b3: "depthBounded ?M ?st3"
      using b2 findCallees_depthBounded[OF M b2, of w root 0 "now w (clock st)" 30000]
      by (cases "direction inp") simp_all
    have "snd (traceCallChain w inp initialState) = ?st3"
      using f Some by (simp add: traceCallChain_def readClock_def Let_def)
    with b3 show ?thesis by simp
  qed
qed


end
